theory Spec2Isabelle
  imports Complex_Main "HOL-Library.Multiset"
begin

section \<open>Plotting utilities for air-traffic data: extent tracking and tick labels\<close>

text \<open>
  The theory embeds the numeric core of \<^verbatim>\<open>ECTL_RD/ectl_plots_utilities.py\<close>
  (\<^verbatim>\<open>plot_airspace\<close>, \<^verbatim>\<open>plot_route\<close>, \<^verbatim>\<open>plot_trajectory\<close>) and of
  \<^verbatim>\<open>OPDI/opdi_plots_utilities.py\<close> (\<^verbatim>\<open>plot_flight_trajectory_events\<close>):
  the filtering and size check of the input frame, the running extent kept on the axes
  object, the padded axis limits and the six tick positions and labels per axis.

  Modelling decisions.
  \<^item> Coordinates are Python floats in the source; they are modelled by \<^typ>\<open>real\<close>, so
    NaN, infinities and the negative zero are outside the model. Minima and maxima are
    exact on floats. Rounding is modelled where it decides a printed digit, in
    \<^verbatim>\<open>np.linspace\<close>, through the rounding function \<open>fl\<close>; the padded limits are
    computed in exact arithmetic.
  \<^item> A data frame is the list of its rows; a row is a record of the columns the code reads.
  \<^item> An exception is a value \<open>Inl e\<close> of the result type \<open>error + 'a\<close>.
  \<^item> What geopandas, shapely, matplotlib and pyproj compute is a parameter (record
    \<open>backend\<close>). Their calls return, except on a line of fewer than two points: shapely
    refuses to build a line from one point, and the empty line has no midpoint and no
    finite bounds to set as limits. Pure drawing calls (\<^verbatim>\<open>plot\<close>, \<^verbatim>\<open>text\<close>,
    \<^verbatim>\<open>add_basemap\<close>, axis labels, titles, legends) leave no trace in the model.
  \<^item> Strings are byte lists in UTF-8.
\<close>

subsection \<open>Data\<close>

type_synonym lim = "real \<times> real"

text \<open>\<^verbatim>\<open>total_bounds\<close> of a geometry: \<open>(xmin, ymin, xmax, ymax)\<close>.\<close>

type_synonym bounds = "real \<times> real \<times> real \<times> real"

text \<open>
  \<open>LibraryError\<close> stands for the exception that a shapely or matplotlib call raises on
  a line of fewer than two points.
\<close>

datatype error = ValueError string | TypeError | AttributeError | LibraryError

text \<open>A figure is known by its \<^verbatim>\<open>figsize\<close> only.\<close>

datatype figure = Figure real real

text \<open>
  The attributes \<^verbatim>\<open>ax._xmin\<close>, \<^verbatim>\<open>ax._xmax\<close>, \<^verbatim>\<open>ax._ymin\<close>, \<^verbatim>\<open>ax._ymax\<close> that
  \<^verbatim>\<open>plot_route\<close> and \<^verbatim>\<open>plot_trajectory\<close> attach to the axes object; each is \<^verbatim>\<open>None\<close>
  or a float.
\<close>

record extent =
  ax_xmin :: "real option"
  ax_xmax :: "real option"
  ax_ymin :: "real option"
  ax_ymax :: "real option"

text \<open>
  The axes object. \<open>ax_extent\<close> is \<open>None\<close> for an axes object that does not carry
  the four tracking attributes (reading one of them raises \<^verbatim>\<open>AttributeError\<close>).
  \<open>ax_xlim\<close> and \<open>ax_ylim\<close> are what \<^verbatim>\<open>get_xlim()\<close> and \<^verbatim>\<open>get_ylim()\<close> report;
  the tick fields are what \<^verbatim>\<open>set_xticks\<close>, \<^verbatim>\<open>set_yticks\<close>, \<^verbatim>\<open>set_xticklabels\<close> and
  \<^verbatim>\<open>set_yticklabels\<close> were last given (empty: never given).
\<close>

record axes =
  ax_extent :: "extent option"
  ax_xlim :: lim
  ax_ylim :: lim
  ax_xticks :: "real list"
  ax_yticks :: "real list"
  ax_xticklabels :: "string list"
  ax_yticklabels :: "string list"

text \<open>Rows of the frames: route and trajectory points, airspace vertices, flight events.\<close>

record waypoint =
  Sequence_Number :: int
  Latitude :: real
  Longitude :: real

record vertex = waypoint +
  Airspace_ID :: string

record event =
  flight_id :: string
  event_time :: int
  latitude :: real
  longitude :: real
  altitude :: real

text \<open>
  The external collaborators.
  \<^item> \<open>line_bounds\<close>: \<^verbatim>\<open>LineString(zip(lon, lat))\<close>, reprojected to EPSG:3857, then
    \<^verbatim>\<open>total_bounds\<close>; \<open>polygon_bounds\<close>: the same through \<^verbatim>\<open>Polygon\<close>.
  \<^item> \<open>transform\<close>: \<^verbatim>\<open>transformer.transform(x, y)\<close> from EPSG:3857 to EPSG:4326.
  \<^item> \<open>set_xlim\<close>, \<open>set_ylim\<close>: the limits the axes report after
    \<^verbatim>\<open>ax.set_xlim(lo, hi)\<close>, \<^verbatim>\<open>ax.set_ylim(lo, hi)\<close> (matplotlib keeps them as given,
    except that it widens two identical limits).
  \<^item> \<open>limits_after_plot\<close>: what \<^verbatim>\<open>get_xlim()\<close> and \<^verbatim>\<open>get_ylim()\<close> report once a
    geometry with the given bounds has been drawn on the axes; \<open>None\<close> when they raise.
  \<^item> \<open>fl\<close>: the rounding of the exact result of one arithmetic operation to a float, as
    numpy performs it.
\<close>

record backend =
  line_bounds :: "(real \<times> real) list \<Rightarrow> bounds"
  polygon_bounds :: "(real \<times> real) list \<Rightarrow> bounds"
  transform :: "real \<times> real \<Rightarrow> real \<times> real"
  set_xlim :: "lim \<Rightarrow> lim"
  set_ylim :: "lim \<Rightarrow> lim"
  limits_after_plot :: "axes \<Rightarrow> bounds \<Rightarrow> (lim \<times> lim) option"
  fl :: "real \<Rightarrow> real"

subsection \<open>Library functions of Python and numpy\<close>

text \<open>\<^verbatim>\<open>str(n)\<close> for a natural number.\<close>

definition digit :: "nat \<Rightarrow> char" where
  "digit d = ''0123456789'' ! d"

function str_nat :: "nat \<Rightarrow> string" where
  "str_nat n = (if n < 10 then [digit n] else str_nat (n div 10) @ [digit (n mod 10)])"
  by pat_completeness auto
termination
  by (relation "measure id") auto

text \<open>Rounding to the nearest integer, a tie going to the even neighbour.\<close>

definition round_half_even :: "real \<Rightarrow> int" where
  "round_half_even x =
     (let f = \<lfloor>x\<rfloor>; d = x - of_int f
      in if d < 1 / 2 then f else if 1 / 2 < d then f + 1 else if even f then f else f + 1)"

text \<open>
  \<^verbatim>\<open>f"{v:.1f}"\<close>: the sign of a negative value (kept when the digits round to zero), the
  integer digits, a point and one decimal digit.
\<close>

definition format_1f :: "real \<Rightarrow> string" where
  "format_1f v =
     (let n = nat (round_half_even (\<bar>v\<bar> * 10))
      in (if v < 0 then ''-'' else '''') @ str_nat (n div 10) @ ''.'' @ [digit (n mod 10)])"

text \<open>The degree sign U+00B0 in UTF-8.\<close>

definition degree_sign :: string where
  "degree_sign = [CHR 0xC2, CHR 0xB0]"

text \<open>
  \<^verbatim>\<open>np.linspace(start, stop, num)\<close> with the default \<^verbatim>\<open>endpoint=True\<close>, every
  operation rounded by \<open>rnd\<close>:
  \<^verbatim>\<open>
  div = num - 1
  delta = stop - start
  y = arange(0, num)
  if div > 0:
      step = delta / div
      if step == 0: y = y / div; y = y * delta
      else:         y = y * step
  else:
      y = y * delta
  y += start
  if num > 1: y[-1] = stop
  \<close>
\<close>

definition linspace :: "(real \<Rightarrow> real) \<Rightarrow> real \<Rightarrow> real \<Rightarrow> nat \<Rightarrow> real list" where
  "linspace rnd start stop num =
     (let dv = num - 1;
          delta = rnd (stop - start);
          y = map real [0..<num];
          y = (if 0 < dv then
                 (let step = rnd (delta / real dv)
                  in if step = 0 then map (\<lambda>i. rnd (rnd (i / real dv) * delta)) y
                     else map (\<lambda>i. rnd (i * step)) y)
               else map (\<lambda>i. rnd (i * delta)) y);
          y = map (\<lambda>v. rnd (v + start)) y
      in if 1 < num then y[num - 1 := stop] else y)"

subsection \<open>The steps shared by the plotting functions\<close>

text \<open>\<^verbatim>\<open>plt.subplots(...)\<close>: a fresh axes object, limits \<open>(0, 1)\<close> on both axes.\<close>

definition subplots :: axes where
  "subplots = \<lparr>ax_extent = None, ax_xlim = (0, 1), ax_ylim = (0, 1),
     ax_xticks = [], ax_yticks = [], ax_xticklabels = [], ax_yticklabels = []\<rparr>"

text \<open>\<^verbatim>\<open>ax._xmin, ax._xmax, ax._ymin, ax._ymax = None, None, None, None\<close>\<close>

definition init_extent :: extent where
  "init_extent = \<lparr>ax_xmin = None, ax_xmax = None, ax_ymin = None, ax_ymax = None\<rparr>"

text \<open>
  \<^verbatim>\<open>new if cur is None else min(cur, new)\<close> and \<^verbatim>\<open>new if cur is None else max(cur, new)\<close>
\<close>

definition lower :: "real option \<Rightarrow> real \<Rightarrow> real" where
  "lower cur new = (case cur of None \<Rightarrow> new | Some c \<Rightarrow> min c new)"

definition upper :: "real option \<Rightarrow> real \<Rightarrow> real" where
  "upper cur new = (case cur of None \<Rightarrow> new | Some c \<Rightarrow> max c new)"

text \<open>The four assignments under \<^verbatim>\<open># --- Update bounds\<close>, on the attribute values.\<close>

fun merge_extent :: "bounds \<Rightarrow> extent \<Rightarrow> extent" where
  "merge_extent (xmin_f, ymin_f, xmax_f, ymax_f) e =
     \<lparr>ax_xmin = Some (lower (ax_xmin e) xmin_f),
      ax_xmax = Some (upper (ax_xmax e) xmax_f),
      ax_ymin = Some (lower (ax_ymin e) ymin_f),
      ax_ymax = Some (upper (ax_ymax e) ymax_f)\<rparr>"

text \<open>The same on the axes object: the attributes must exist to be read.\<close>

definition update_bounds :: "bounds \<Rightarrow> axes \<Rightarrow> error + axes" where
  "update_bounds total_bounds ax =
     (case ax_extent ax of
        None \<Rightarrow> Inl AttributeError
      | Some e \<Rightarrow> Inr (ax\<lparr>ax_extent := Some (merge_extent total_bounds e)\<rparr>))"

text \<open>
  \<^verbatim>\<open>x_pad = (ax._xmax - ax._xmin) * pad\<close>, \<^verbatim>\<open>y_pad = (ax._ymax - ax._ymin) * pad\<close> and the
  arguments of \<^verbatim>\<open>set_xlim\<close> and \<^verbatim>\<open>set_ylim\<close>. A subtraction with \<^verbatim>\<open>None\<close> raises
  \<^verbatim>\<open>TypeError\<close>.
\<close>

definition padded_limits :: "real \<Rightarrow> extent \<Rightarrow> error + (lim \<times> lim)" where
  "padded_limits pad e =
     (case (ax_xmax e, ax_xmin e) of
        (Some xmax, Some xmin) \<Rightarrow>
          (case (ax_ymax e, ax_ymin e) of
             (Some ymax, Some ymin) \<Rightarrow>
               (let x_pad = (xmax - xmin) * pad;
                    y_pad = (ymax - ymin) * pad
                in Inr ((xmin - x_pad, xmax + x_pad), (ymin - y_pad, ymax + y_pad)))
           | _ \<Rightarrow> Inl TypeError)
      | _ \<Rightarrow> Inl TypeError)"

definition update_limits :: "backend \<Rightarrow> real \<Rightarrow> axes \<Rightarrow> error + axes" where
  "update_limits B pad ax =
     (case ax_extent ax of
        None \<Rightarrow> Inl AttributeError
      | Some e \<Rightarrow>
          (case padded_limits pad e of
             Inl err \<Rightarrow> Inl err
           | Inr (xl, yl) \<Rightarrow> Inr (ax\<lparr>ax_xlim := set_xlim B xl, ax_ylim := set_ylim B yl\<rparr>)))"

text \<open>\<^verbatim>\<open>f"{lon:.1f}\<degree>"\<close>\<close>

definition degree_label :: "real \<Rightarrow> string" where
  "degree_label v = format_1f v @ degree_sign"

text \<open>
  The block \<^verbatim>\<open># --- Convert to lat/lon ticks\<close>: the limits are read back from the axes,
  their two corners are transformed, and six ticks and six labels are set per axis.
\<close>

definition latlon_ticks :: "backend \<Rightarrow> axes \<Rightarrow> axes" where
  "latlon_ticks B ax =
     (let xlim = ax_xlim ax;
          ylim = ax_ylim ax;
          (lon_min, lat_min) = transform B (fst xlim, fst ylim);
          (lon_max, lat_max) = transform B (snd xlim, snd ylim)
      in ax\<lparr>ax_xticks := linspace (fl B) (fst xlim) (snd xlim) 6,
            ax_yticks := linspace (fl B) (fst ylim) (snd ylim) 6,
            ax_xticklabels := map degree_label (linspace (fl B) lon_min lon_max 6),
            ax_yticklabels := map degree_label (linspace (fl B) lat_min lat_max 6)\<rparr>)"

subsection \<open>The plotting functions\<close>

text \<open>
  \<^verbatim>\<open>plot_route\<close>: with one row \<^verbatim>\<open>LineString(...)\<close> raises; with no row the line is
  empty and \<^verbatim>\<open>midpoint.x\<close> raises, before the bounds are updated.
\<close>

definition plot_route ::
  "backend \<Rightarrow> waypoint list \<Rightarrow> figure option \<Rightarrow> axes option \<Rightarrow> error + (figure \<times> axes)" where
  "plot_route B df_route fig ax =
     (let (fig, ax) =
            (case (fig, ax) of
               (Some f, Some a) \<Rightarrow> (f, a)
             | _ \<Rightarrow> (Figure 8 8, subplots\<lparr>ax_extent := Some init_extent\<rparr>));
          df_route = sort_key Sequence_Number df_route;
          total_bounds = line_bounds B (map (\<lambda>r. (Longitude r, Latitude r)) df_route)
      in if length df_route < 2 then Inl LibraryError
         else
           (case update_bounds total_bounds ax of
              Inl err \<Rightarrow> Inl err
            | Inr ax \<Rightarrow>
                (case update_limits B (2 / 10) ax of
                   Inl err \<Rightarrow> Inl err
                 | Inr ax \<Rightarrow>
                     (case update_limits B (2 / 10) ax of
                        Inl err \<Rightarrow> Inl err
                      | Inr ax \<Rightarrow> Inr (fig, latlon_ticks B ax)))))"

text \<open>
  \<^verbatim>\<open>plot_trajectory\<close>: with one row \<^verbatim>\<open>LineString(...)\<close> raises. With no row the
  bounds of the empty line are NaN: the tracking attributes are read first (an axes
  object without them raises \<^verbatim>\<open>AttributeError\<close>), then \<^verbatim>\<open>set_xlim\<close> or
  \<^verbatim>\<open>set_ylim\<close> refuses a NaN limit or, on axes whose four bounds were set, \<^verbatim>\<open>midpoint.x\<close>
  raises.
\<close>

definition plot_trajectory ::
  "backend \<Rightarrow> waypoint list \<Rightarrow> figure option \<Rightarrow> axes option \<Rightarrow> error + (figure \<times> axes)" where
  "plot_trajectory B df_points fig ax =
     (let (fig, ax) =
            (case (fig, ax) of
               (Some f, Some a) \<Rightarrow> (f, a)
             | _ \<Rightarrow> (Figure 10 10, subplots\<lparr>ax_extent := Some init_extent\<rparr>));
          df_points = sort_key Sequence_Number df_points;
          total_bounds = line_bounds B (map (\<lambda>r. (Longitude r, Latitude r)) df_points)
      in if length df_points = 1 then Inl LibraryError
         else if df_points = [] then
           (case ax_extent ax of None \<Rightarrow> Inl AttributeError | Some e \<Rightarrow> Inl LibraryError)
         else
           (case update_bounds total_bounds ax of
              Inl err \<Rightarrow> Inl err
            | Inr ax \<Rightarrow>
                (case update_limits B (3 / 10) ax of
                   Inl err \<Rightarrow> Inl err
                 | Inr ax \<Rightarrow> Inr (fig, latlon_ticks B ax))))"

text \<open>
  The message of the \<^verbatim>\<open>ValueError\<close> of \<^verbatim>\<open>plot_airspace\<close>:
  \<^verbatim>\<open>f"Not enough points to build a polygon for '{airspace_str}' (need >=3, got {len(subset)})"\<close>
\<close>

definition not_enough_points :: "string \<Rightarrow> nat \<Rightarrow> string" where
  "not_enough_points airspace_str n =
     ''Not enough points to build a polygon for '' @ [CHR 0x27] @ airspace_str @ [CHR 0x27]
       @ '' (need >=3, got '' @ str_nat n @ '')''"

definition plot_airspace ::
  "backend \<Rightarrow> vertex list \<Rightarrow> string \<Rightarrow> figure option \<Rightarrow> axes option \<Rightarrow> error + (figure \<times> axes)" where
  "plot_airspace B df_airspace airspace_str fig ax =
     (let subset = (if airspace_str \<noteq> [] then filter (\<lambda>r. Airspace_ID r = airspace_str) df_airspace
                    else df_airspace);
          subset = sort_key Sequence_Number subset
      in if length subset < 3 then Inl (ValueError (not_enough_points airspace_str (length subset)))
         else
           (let (fig, ax) =
                  (case (fig, ax) of (Some f, Some a) \<Rightarrow> (f, a) | _ \<Rightarrow> (Figure 8 8, subplots));
                (xmin_f, ymin_f, xmax_f, ymax_f) =
                  polygon_bounds B (map (\<lambda>r. (Longitude r, Latitude r)) subset);
                (xmin, ymin, xmax, ymax) =
                  (case limits_after_plot B ax (xmin_f, ymin_f, xmax_f, ymax_f) of
                     Some (curr_xlim, curr_ylim) \<Rightarrow>
                       (if curr_xlim \<noteq> (0, 1) \<or> curr_ylim \<noteq> (0, 1)
                        then (min (fst curr_xlim) xmin_f, min (fst curr_ylim) ymin_f,
                              max (snd curr_xlim) xmax_f, max (snd curr_ylim) ymax_f)
                        else (xmin_f, ymin_f, xmax_f, ymax_f))
                   | None \<Rightarrow> (xmin_f, ymin_f, xmax_f, ymax_f));
                x_pad = (xmax - xmin) * (2 / 10);
                y_pad = (ymax - ymin) * (2 / 10);
                ax = ax\<lparr>ax_xlim := set_xlim B (xmin - x_pad, xmax + x_pad),
                        ax_ylim := set_ylim B (ymin - y_pad, ymax + y_pad)\<rparr>
            in Inr (fig, latlon_ticks B ax)))"

text \<open>
  \<^verbatim>\<open>plot_flight_trajectory_events\<close> prints and returns; the result is the list of printed
  lines and the returned value (\<open>None\<close> for Python's \<^verbatim>\<open>None\<close>, else the figure and the
  map axes; the axes of the vertical profile are not modelled). With exactly one event of
  the flight \<^verbatim>\<open>LineString(...)\<close> raises.
\<close>

definition plot_flight_trajectory_events ::
  "backend \<Rightarrow> event list \<Rightarrow> string \<Rightarrow> error + (string list \<times> (figure \<times> axes) option)" where
  "plot_flight_trajectory_events B df_events fid =
     (let df = filter (\<lambda>r. flight_id r = fid) df_events
      in if df = [] then Inr ([''No data found for flight_id '' @ fid], None)
         else if length df = 1 then Inl LibraryError
         else
           (let df = sort_key event_time df;
                (xmin, ymin, xmax, ymax) = line_bounds B (map (\<lambda>r. (longitude r, latitude r)) df);
                x_pad = (xmax - xmin) * (2 / 10);
                y_pad = (ymax - ymin) * (2 / 10);
                ax_map = subplots\<lparr>ax_xlim := set_xlim B (xmin - x_pad, xmax + x_pad),
                                  ax_ylim := set_ylim B (ymin - y_pad, ymax + y_pad)\<rparr>
            in Inr ([], Some (Figure 10 12, latlon_ticks B ax_map))))"

subsection \<open>Derived notions used in the statements\<close>

text \<open>A box with its lower bounds not above its upper bounds.\<close>

fun non_degenerate :: "bounds \<Rightarrow> bool" where
  "non_degenerate (xmin_f, ymin_f, xmax_f, ymax_f) = (xmin_f \<le> xmax_f \<and> ymin_f \<le> ymax_f)"

text \<open>The state in which all four bounds are set.\<close>

definition full_extent :: "real \<Rightarrow> real \<Rightarrow> real \<Rightarrow> real \<Rightarrow> extent" where
  "full_extent xmin xmax ymin ymax =
     \<lparr>ax_xmin = Some xmin, ax_xmax = Some xmax, ax_ymin = Some ymin, ax_ymax = Some ymax\<rparr>"

text \<open>
  The feature box that \<^verbatim>\<open>plot_route\<close> and \<^verbatim>\<open>plot_trajectory\<close> obtain from their frame:
  the rows sorted, the line built from longitude and latitude, its projected bounds.
\<close>

definition feature_bounds :: "backend \<Rightarrow> waypoint list \<Rightarrow> bounds" where
  "feature_bounds B df =
     line_bounds B (map (\<lambda>r. (Longitude r, Latitude r)) (sort_key Sequence_Number df))"

text \<open>The rows of the frame that \<^verbatim>\<open>plot_airspace\<close> keeps for the polygon.\<close>

definition selected_rows :: "vertex list \<Rightarrow> string \<Rightarrow> vertex list" where
  "selected_rows df_airspace airspace_str =
     (if airspace_str \<noteq> [] then filter (\<lambda>r. Airspace_ID r = airspace_str) df_airspace
      else df_airspace)"

text \<open>
  The step of six samples from \<open>a\<close> to \<open>b\<close> and the sample of index \<open>i\<close>: \<open>a\<close> plus
  \<open>i\<close> steps, every operation rounded (when the step rounds to zero, \<open>a\<close> plus the
  fraction \<open>i / 5\<close> of the distance).
\<close>

definition lin_step :: "(real \<Rightarrow> real) \<Rightarrow> real \<Rightarrow> real \<Rightarrow> real" where
  "lin_step rnd a b = rnd (rnd (b - a) / 5)"

definition lin_sample :: "(real \<Rightarrow> real) \<Rightarrow> real \<Rightarrow> real \<Rightarrow> real \<Rightarrow> real" where
  "lin_sample rnd a b i =
     (if lin_step rnd a b = 0 then rnd (rnd (rnd (i / 5) * rnd (b - a)) + a)
      else rnd (rnd (i * lin_step rnd a b) + a))"

text \<open>Feeding a sequence of feature boxes to the merge, first box first.\<close>

definition merge_all :: "bounds list \<Rightarrow> extent \<Rightarrow> extent" where
  "merge_all bs e = fold merge_extent bs e"

text \<open>A sample frame of two points, its rows out of order, and sample axes with an extent.\<close>

definition sample_frame :: "waypoint list" where
  "sample_frame =
     [\<lparr>Sequence_Number = 2, Latitude = 3, Longitude = 15\<rparr>,
      \<lparr>Sequence_Number = 1, Latitude = - 2, Longitude = 5\<rparr>]"

definition sample_axes :: axes where
  "sample_axes = subplots\<lparr>ax_extent := Some (full_extent 0 10 0 5)\<rparr>"

text \<open>
  Rounding to the nearest IEEE 754 binary64 number, a tie going to the even significand:
  \<open>binade\<close> finds the power of two that scales a positive magnitude into
  \<open>[2^52, 2^53)\<close>, where the floats are the integers (for subnormal numbers the scaling
  stops at \<open>2^1074\<close>). Overflow to infinity is not modelled.
\<close>

fun binade :: "nat \<Rightarrow> real \<Rightarrow> int \<Rightarrow> int" where
  "binade fuel m k =
     (if fuel = 0 then k
      else if m < 2 ^ 52 then binade (fuel - 1) (m * 2) (k + 1)
      else if 2 ^ 53 \<le> m then binade (fuel - 1) (m / 2) (k - 1)
      else k)"

definition binary64 :: "real \<Rightarrow> real" where
  "binary64 x =
     (if x = 0 then 0
      else
        (let k = min (binade 2200 \<bar>x\<bar> 0) 1074;
             scaled = (if 0 \<le> k then \<bar>x\<bar> * 2 ^ nat k else \<bar>x\<bar> / 2 ^ nat (- k));
             n = of_int (round_half_even scaled);
             r = (if 0 \<le> k then n / 2 ^ nat k else n * 2 ^ nat (- k))
         in if x < 0 then - r else r))"

declare binade.simps [simp del]

text \<open>
  A sample instance of the collaborators for concrete evaluations: bounds are the minima
  and maxima of the points (at least one point, else zeros), the projection to degrees
  divides by 100, limits are kept as given, arithmetic is rounded to binary64.
\<close>

definition sample_bounds :: "(real \<times> real) list \<Rightarrow> bounds" where
  "sample_bounds ps =
     (case ps of
        [] \<Rightarrow> (0, 0, 0, 0)
      | p # qs \<Rightarrow> (fold min (map fst qs) (fst p), fold min (map snd qs) (snd p),
                   fold max (map fst qs) (fst p), fold max (map snd qs) (snd p)))"

definition sample_backend :: backend where
  "sample_backend =
     \<lparr>line_bounds = sample_bounds, polygon_bounds = sample_bounds,
      transform = (\<lambda>(x, y). (x / 100, y / 100)),
      set_xlim = (\<lambda>l. l), set_ylim = (\<lambda>l. l),
      limits_after_plot = (\<lambda>ax b. Some (ax_xlim ax, ax_ylim ax)),
      fl = binary64\<rparr>"

section \<open>Properties\<close>

subsection \<open>Auxiliary facts\<close>

lemma lower_commute: "lower (Some (lower c a)) b = lower (Some (lower c b)) a"
  by (cases c) (auto simp: lower_def)

lemma upper_commute: "upper (Some (upper c a)) b = upper (Some (upper c b)) a"
  by (cases c) (auto simp: upper_def)

lemma merge_extent_commute:
  "merge_extent a (merge_extent b e) = merge_extent b (merge_extent a e)"
proof -
  obtain a1 a2 a3 a4 where a: "a = (a1, a2, a3, a4)" by (cases a) auto
  obtain b1 b2 b3 b4 where b: "b = (b1, b2, b3, b4)" by (cases b) auto
  show ?thesis
    unfolding a b by (simp add: lower_commute[of _ b1 a1] upper_commute[of _ b3 a3]
       lower_commute[of _ b2 a2] upper_commute[of _ b4 a4])
qed

lemma merge_all_perm:
  assumes "mset bs = mset cs"
  shows "merge_all bs e = merge_all cs e"
proof -
  have "fold merge_extent bs = fold merge_extent cs"
    using assms by (rule fold_multiset_equiv[rotated]) (auto simp: fun_eq_iff merge_extent_commute)
  then show ?thesis by (simp add: merge_all_def)
qed

lemma merge_extent_init:
  "merge_extent (xmin_f, ymin_f, xmax_f, ymax_f) init_extent = full_extent xmin_f xmax_f ymin_f ymax_f"
  by (simp add: init_extent_def full_extent_def lower_def upper_def)

lemma merge_extent_full:
  "merge_extent (xmin_f, ymin_f, xmax_f, ymax_f) (full_extent a b c d)
     = full_extent (min a xmin_f) (max b xmax_f) (min c ymin_f) (max d ymax_f)"
  by (simp add: full_extent_def lower_def upper_def)

lemma merge_extent_any:
  "merge_extent (xmin_f, ymin_f, xmax_f, ymax_f) e
     = full_extent (lower (ax_xmin e) xmin_f) (upper (ax_xmax e) xmax_f)
         (lower (ax_ymin e) ymin_f) (upper (ax_ymax e) ymax_f)"
  by (simp add: full_extent_def)

declare merge_extent.simps [simp del]

lemma full_extent_inject:
  "full_extent a b c d = full_extent a' b' c' d' \<longleftrightarrow> a = a' \<and> b = b' \<and> c = c' \<and> d = d'"
  by (auto simp: full_extent_def)

lemma padded_limits_full:
  "padded_limits p (full_extent a b c d)
     = Inr ((a - (b - a) * p, b + (b - a) * p), (c - (d - c) * p, d + (d - c) * p))"
  by (simp add: padded_limits_def full_extent_def Let_def)

lemma latlon_ticks_keeps:
  "ax_extent (latlon_ticks B ax) = ax_extent ax"
  "ax_xlim (latlon_ticks B ax) = ax_xlim ax"
  "ax_ylim (latlon_ticks B ax) = ax_ylim ax"
  by (simp_all add: latlon_ticks_def Let_def split: prod.splits)

lemma update_limits_full:
  "ax_extent ax = Some (full_extent a b c d) \<Longrightarrow>
   update_limits B p ax
     = Inr (ax\<lparr>ax_xlim := set_xlim B (a - (b - a) * p, b + (b - a) * p),
               ax_ylim := set_ylim B (c - (d - c) * p, d + (d - c) * p)\<rparr>)"
  by (simp add: update_limits_def padded_limits_full)

lemma merge_extent_ex_full: "\<exists>a b c d. merge_extent bd e = full_extent a b c d"
  by (cases bd) (auto simp only: merge_extent_any)

lemma sort_key_Nil_iff: "sort_key f xs = [] \<longleftrightarrow> xs = []"
  using length_sort[of f xs] by (metis length_0_conv)

lemma plot_route_short: "length df < 2 \<Longrightarrow> plot_route B df fig ax = Inl LibraryError"
  by (simp add: plot_route_def Let_def split: prod.splits)

lemma plot_trajectory_one: "length df = 1 \<Longrightarrow> plot_trajectory B df fig ax = Inl LibraryError"
  by (simp add: plot_trajectory_def Let_def split: prod.splits)

lemma plot_trajectory_empty: "\<exists>err. plot_trajectory B [] fig ax = Inl err"
  by (simp add: plot_trajectory_def Let_def split: prod.splits option.splits)

lemma plot_route_on:
  assumes "2 \<le> length df" and "ax_extent ax = Some e"
    and "merge_extent (feature_bounds B df) e = full_extent a b c d"
  shows "plot_route B df (Some fig) (Some ax)
     = Inr (fig, latlon_ticks B
         (ax\<lparr>ax_extent := Some (full_extent a b c d),
             ax_xlim := set_xlim B (a - (b - a) * (2 / 10), b + (b - a) * (2 / 10)),
             ax_ylim := set_ylim B (c - (d - c) * (2 / 10), d + (d - c) * (2 / 10))\<rparr>))"
  using assms
  by (simp add: plot_route_def update_bounds_def feature_bounds_def update_limits_full)

lemma plot_route_absent:
  "2 \<le> length df \<Longrightarrow> ax_extent ax = None \<Longrightarrow>
   plot_route B df (Some fig) (Some ax) = Inl AttributeError"
  by (simp add: plot_route_def update_bounds_def)

lemma new_axes_choice:
  assumes "fig = None \<or> ax = None"
  shows "(case (fig, ax) of (Some f, Some a) \<Rightarrow> (f, a) | _ \<Rightarrow> dflt) = dflt"
  using assms by (auto split: option.splits)

lemma plot_route_new:
  assumes "fig = None \<or> ax = None" and "2 \<le> length df"
    and "merge_extent (feature_bounds B df) init_extent = full_extent a b c d"
  shows "plot_route B df fig ax
     = Inr (Figure 8 8, latlon_ticks B
         (subplots\<lparr>ax_extent := Some (full_extent a b c d),
             ax_xlim := set_xlim B (a - (b - a) * (2 / 10), b + (b - a) * (2 / 10)),
             ax_ylim := set_ylim B (c - (d - c) * (2 / 10), d + (d - c) * (2 / 10))\<rparr>))"
  using assms(2,3) unfolding plot_route_def new_axes_choice[OF assms(1)]
  by (simp add: update_bounds_def feature_bounds_def update_limits_full)

lemma plot_trajectory_on:
  assumes "2 \<le> length df" and "ax_extent ax = Some e"
    and "merge_extent (feature_bounds B df) e = full_extent a b c d"
  shows "plot_trajectory B df (Some fig) (Some ax)
     = Inr (fig, latlon_ticks B
         (ax\<lparr>ax_extent := Some (full_extent a b c d),
             ax_xlim := set_xlim B (a - (b - a) * (3 / 10), b + (b - a) * (3 / 10)),
             ax_ylim := set_ylim B (c - (d - c) * (3 / 10), d + (d - c) * (3 / 10))\<rparr>))"
proof -
  have "length df \<noteq> 1" and "df \<noteq> []" using assms(1) by auto
  then show ?thesis
    using assms(2,3)
    by (simp add: plot_trajectory_def update_bounds_def feature_bounds_def update_limits_full
          sort_key_Nil_iff Let_def)
qed

lemma plot_trajectory_absent:
  "2 \<le> length df \<Longrightarrow> ax_extent ax = None \<Longrightarrow>
   plot_trajectory B df (Some fig) (Some ax) = Inl AttributeError"
  by (auto simp add: plot_trajectory_def update_bounds_def sort_key_Nil_iff Let_def)

lemma plot_trajectory_new:
  assumes "fig = None \<or> ax = None" and "2 \<le> length df"
    and "merge_extent (feature_bounds B df) init_extent = full_extent a b c d"
  shows "plot_trajectory B df fig ax
     = Inr (Figure 10 10, latlon_ticks B
         (subplots\<lparr>ax_extent := Some (full_extent a b c d),
             ax_xlim := set_xlim B (a - (b - a) * (3 / 10), b + (b - a) * (3 / 10)),
             ax_ylim := set_ylim B (c - (d - c) * (3 / 10), d + (d - c) * (3 / 10))\<rparr>))"
proof -
  have "length df \<noteq> 1" and "df \<noteq> []" using assms(2) by auto
  then show ?thesis
    using assms(3) unfolding plot_trajectory_def new_axes_choice[OF assms(1)]
    by (simp add: update_bounds_def feature_bounds_def update_limits_full
          sort_key_Nil_iff Let_def)
qed

lemma plot_route_returns:
  assumes "plot_route B df fig ax = Inr r"
  shows "2 \<le> length df"
proof (rule ccontr)
  assume "\<not> 2 \<le> length df"
  then have "length df < 2" by simp
  from plot_route_short[OF this] assms show False by simp
qed

lemma plot_trajectory_returns:
  assumes "plot_trajectory B df fig ax = Inr r"
  shows "2 \<le> length df"
proof (rule ccontr)
  assume "\<not> 2 \<le> length df"
  then have "length df = 1 \<or> df = []" by (cases df) (auto simp: not_le less_Suc_eq)
  then show False
    using plot_trajectory_one[of df B fig ax] plot_trajectory_empty[of B fig ax] assms by auto
qed

lemma shape_aux:
  assumes "ax' = latlon_ticks B
         (X\<lparr>ax_extent := Some (full_extent a b c d),
             ax_xlim := set_xlim B (a - (b - a) * p, b + (b - a) * p),
             ax_ylim := set_ylim B (c - (d - c) * p, d + (d - c) * p)\<rparr>)"
  shows "\<exists>a b c d. ax_extent ax' = Some (full_extent a b c d)
           \<and> ax_xlim ax' = set_xlim B (a - (b - a) * p, b + (b - a) * p)
           \<and> ax_ylim ax' = set_ylim B (c - (d - c) * p, d + (d - c) * p)"
  apply (rule exI[of _ a], rule exI[of _ b], rule exI[of _ c], rule exI[of _ d])
  apply (simp only: assms latlon_ticks_keeps)
  apply simp
  done

lemma plot_route_shape:
  assumes "plot_route B df fig ax = Inr (fig', ax')"
  shows "\<exists>a b c d. ax_extent ax' = Some (full_extent a b c d)
           \<and> ax_xlim ax' = set_xlim B (a - (b - a) * (2 / 10), b + (b - a) * (2 / 10))
           \<and> ax_ylim ax' = set_ylim B (c - (d - c) * (2 / 10), d + (d - c) * (2 / 10))"
proof (cases "fig = None \<or> ax = None")
  case True
  note len = plot_route_returns[OF assms]
  obtain a b c d where m: "merge_extent (feature_bounds B df) init_extent = full_extent a b c d"
    using merge_extent_ex_full by blast
  show ?thesis
    by (rule shape_aux[where X=subplots and a=a and b=b and c=c and d=d])
       (use assms in \<open>auto simp add: plot_route_new[OF True len m]\<close>)
next
  case False
  note len = plot_route_returns[OF assms]
  from False obtain f x where fx: "fig = Some f" "ax = Some x" by auto
  show ?thesis
  proof (cases "ax_extent x")
    case None
    then show ?thesis using assms by (simp add: fx plot_route_absent[OF len])
  next
    case (Some e)
    obtain a b c d where m: "merge_extent (feature_bounds B df) e = full_extent a b c d"
      using merge_extent_ex_full by blast
    show ?thesis
      by (rule shape_aux[where X=x and a=a and b=b and c=c and d=d])
         (use assms in \<open>auto simp add: fx plot_route_on[OF len Some m]\<close>)
  qed
qed

lemma plot_trajectory_shape:
  assumes "plot_trajectory B df fig ax = Inr (fig', ax')"
  shows "\<exists>a b c d. ax_extent ax' = Some (full_extent a b c d)
           \<and> ax_xlim ax' = set_xlim B (a - (b - a) * (3 / 10), b + (b - a) * (3 / 10))
           \<and> ax_ylim ax' = set_ylim B (c - (d - c) * (3 / 10), d + (d - c) * (3 / 10))"
proof (cases "fig = None \<or> ax = None")
  case True
  note len = plot_trajectory_returns[OF assms]
  obtain a b c d where m: "merge_extent (feature_bounds B df) init_extent = full_extent a b c d"
    using merge_extent_ex_full by blast
  show ?thesis
    by (rule shape_aux[where X=subplots and a=a and b=b and c=c and d=d])
       (use assms in \<open>auto simp add: plot_trajectory_new[OF True len m]\<close>)
next
  case False
  note len = plot_trajectory_returns[OF assms]
  from False obtain f x where fx: "fig = Some f" "ax = Some x" by auto
  show ?thesis
  proof (cases "ax_extent x")
    case None
    then show ?thesis using assms by (simp add: fx plot_trajectory_absent[OF len])
  next
    case (Some e)
    obtain a b c d where m: "merge_extent (feature_bounds B df) e = full_extent a b c d"
      using merge_extent_ex_full by blast
    show ?thesis
      by (rule shape_aux[where X=x and a=a and b=b and c=c and d=d])
         (use assms in \<open>auto simp add: fx plot_trajectory_on[OF len Some m]\<close>)
  qed
qed

lemma plot_route_extent_on:
  assumes "ax_extent ax = Some e"
    and "plot_route B df (Some fig) (Some ax) = Inr (fig', ax')"
  shows "ax_extent ax' = Some (merge_extent (feature_bounds B df) e)"
proof -
  note len = plot_route_returns[OF assms(2)]
  obtain a b c d where m: "merge_extent (feature_bounds B df) e = full_extent a b c d"
    using merge_extent_ex_full by blast
  show ?thesis
    using assms(2) unfolding plot_route_on[OF len assms(1) m]
    by (auto simp: latlon_ticks_keeps m)
qed

lemma plot_route_extent_new:
  assumes "fig = None \<or> ax = None"
    and "plot_route B df fig ax = Inr (fig', ax')"
  shows "ax_extent ax' = Some (merge_extent (feature_bounds B df) init_extent)"
proof -
  note len = plot_route_returns[OF assms(2)]
  obtain a b c d where m: "merge_extent (feature_bounds B df) init_extent = full_extent a b c d"
    using merge_extent_ex_full by blast
  show ?thesis
    using assms(2) unfolding plot_route_new[OF assms(1) len m]
    by (auto simp: latlon_ticks_keeps m)
qed

lemma plot_trajectory_extent_on:
  assumes "ax_extent ax = Some e"
    and "plot_trajectory B df (Some fig) (Some ax) = Inr (fig', ax')"
  shows "ax_extent ax' = Some (merge_extent (feature_bounds B df) e)"
proof -
  note len = plot_trajectory_returns[OF assms(2)]
  obtain a b c d where m: "merge_extent (feature_bounds B df) e = full_extent a b c d"
    using merge_extent_ex_full by blast
  show ?thesis
    using assms(2) unfolding plot_trajectory_on[OF len assms(1) m]
    by (auto simp: latlon_ticks_keeps m)
qed

lemma plot_trajectory_extent_new:
  assumes "fig = None \<or> ax = None"
    and "plot_trajectory B df fig ax = Inr (fig', ax')"
  shows "ax_extent ax' = Some (merge_extent (feature_bounds B df) init_extent)"
proof -
  note len = plot_trajectory_returns[OF assms(2)]
  obtain a b c d where m: "merge_extent (feature_bounds B df) init_extent = full_extent a b c d"
    using merge_extent_ex_full by blast
  show ?thesis
    using assms(2) unfolding plot_trajectory_new[OF assms(1) len m]
    by (auto simp: latlon_ticks_keeps m)
qed

lemma sample_frame_bounds: "feature_bounds sample_backend sample_frame = (5, - 2, 15, 3)"
  by (simp add: feature_bounds_def sample_backend_def sample_bounds_def sample_frame_def)

lemma sample_frame_length: "2 \<le> length sample_frame"
  by (simp add: sample_frame_def)

lemma sample_route_on:
  "plot_route sample_backend sample_frame (Some (Figure 8 8)) (Some sample_axes)
     = Inr (Figure 8 8, latlon_ticks sample_backend
         (sample_axes\<lparr>ax_extent := Some (full_extent 0 15 (- 2) 5),
             ax_xlim := (- 3, 18), ax_ylim := (- (34 / 10), 64 / 10)\<rparr>))"
proof -
  have e: "ax_extent sample_axes = Some (full_extent 0 10 0 5)"
    by (simp add: sample_axes_def)
  have m: "merge_extent (feature_bounds sample_backend sample_frame) (full_extent 0 10 0 5)
             = full_extent 0 15 (- 2) 5"
    by (simp add: sample_frame_bounds merge_extent_full)
  show ?thesis
    unfolding plot_route_on[OF sample_frame_length e m] by (simp add: sample_backend_def)
qed

lemma sample_trajectory_on:
  "plot_trajectory sample_backend sample_frame (Some (Figure 8 8)) (Some sample_axes)
     = Inr (Figure 8 8, latlon_ticks sample_backend
         (sample_axes\<lparr>ax_extent := Some (full_extent 0 15 (- 2) 5),
             ax_xlim := (- (45 / 10), 195 / 10), ax_ylim := (- (41 / 10), 71 / 10)\<rparr>))"
proof -
  have e: "ax_extent sample_axes = Some (full_extent 0 10 0 5)"
    by (simp add: sample_axes_def)
  have m: "merge_extent (feature_bounds sample_backend sample_frame) (full_extent 0 10 0 5)
             = full_extent 0 15 (- 2) 5"
    by (simp add: sample_frame_bounds merge_extent_full)
  show ?thesis
    unfolding plot_trajectory_on[OF sample_frame_length e m] by (simp add: sample_backend_def)
qed

lemma sample_route_new:
  "plot_route sample_backend sample_frame None None
     = Inr (Figure 8 8, latlon_ticks sample_backend
         (subplots\<lparr>ax_extent := Some (full_extent 5 15 (- 2) 3),
             ax_xlim := (3, 17), ax_ylim := (- 3, 4)\<rparr>))"
proof -
  have m: "merge_extent (feature_bounds sample_backend sample_frame) init_extent
             = full_extent 5 15 (- 2) 3"
    by (simp add: sample_frame_bounds merge_extent_init)
  show ?thesis
    unfolding plot_route_new[OF disjI1[OF refl] sample_frame_length m]
    by (simp add: sample_backend_def)
qed

lemma sample_trajectory_new:
  "plot_trajectory sample_backend sample_frame None None
     = Inr (Figure 10 10, latlon_ticks sample_backend
         (subplots\<lparr>ax_extent := Some (full_extent 5 15 (- 2) 3),
             ax_xlim := (2, 18), ax_ylim := (- (7 / 2), 9 / 2)\<rparr>))"
proof -
  have m: "merge_extent (feature_bounds sample_backend sample_frame) init_extent
             = full_extent 5 15 (- 2) 3"
    by (simp add: sample_frame_bounds merge_extent_init)
  show ?thesis
    unfolding plot_trajectory_new[OF disjI1[OF refl] sample_frame_length m]
    by (simp add: sample_backend_def)
qed

lemma upt_6: "[0..<6] = [0, 1, 2, 3, 4, 5]"
  by (simp add: upt_rec)

lemma digit_mem: "d < 10 \<Longrightarrow> digit d \<in> set ''0123456789''"
  unfolding digit_def by (rule nth_mem) simp

lemma str_nat_nonempty: "str_nat n \<noteq> []"
  by (subst str_nat.simps) simp

lemma str_nat_lt: "n < 10 \<Longrightarrow> str_nat n = [digit n]"
  by (subst str_nat.simps) simp

lemma str_nat_ge: "\<not> n < 10 \<Longrightarrow> str_nat n = str_nat (n div 10) @ [digit (n mod 10)]"
  by (subst str_nat.simps) simp

lemma str_nat_digits: "set (str_nat n) \<subseteq> set ''0123456789''"
proof (induction n rule: str_nat.induct)
  case (1 n)
  show ?case
  proof (cases "n < 10")
    case True
    show ?thesis
      unfolding str_nat_lt[OF True] using digit_mem[OF True] by (simp only: set_simps) blast
  next
    case False
    have d: "digit (n mod 10) \<in> set ''0123456789''" by (rule digit_mem) simp
    have s: "set (str_nat n) = insert (digit (n mod 10)) (set (str_nat (n div 10)))"
      unfolding str_nat_ge[OF False] by (simp only: set_append set_simps) blast
    show ?thesis
      unfolding s using 1[OF False] d by blast
  qed
qed

lemma format_1f_unfold:
  "format_1f v = (if v < 0 then ''-'' else '''')
       @ str_nat (nat (round_half_even (\<bar>v\<bar> * 10)) div 10) @ ''.''
       @ [digit (nat (round_half_even (\<bar>v\<bar> * 10)) mod 10)]"
  by (simp only: format_1f_def Let_def)

lemma linspace_6:
  "linspace rnd a b 6
     = [lin_sample rnd a b 0, lin_sample rnd a b 1, lin_sample rnd a b 2,
        lin_sample rnd a b 3, lin_sample rnd a b 4, b]"
  by (simp add: linspace_def lin_sample_def lin_step_def Let_def upt_6)

lemma lin_sample_first: "rnd 0 = 0 \<Longrightarrow> rnd a = a \<Longrightarrow> lin_sample rnd a b 0 = a"
  by (simp add: lin_sample_def)

lemma lin_sample_same: "rnd 0 = 0 \<Longrightarrow> rnd a = a \<Longrightarrow> lin_sample rnd a a i = a"
  by (simp add: lin_sample_def lin_step_def)

lemma lin_sample_exact:
  assumes "\<forall>x. rnd x = x"
  shows "lin_sample rnd a b i = a + i * (b - a) / 5"
  using assms by (simp add: lin_sample_def lin_step_def)

lemma degree_label_shape:
  "\<exists>s d. degree_label v = s @ ''.'' @ [d, CHR 0xC2, CHR 0xB0]
         \<and> d \<in> set ''0123456789'' \<and> s \<noteq> [] \<and> set s \<subseteq> set ''-0123456789''"
proof -
  define n where "n = nat (round_half_even (\<bar>v\<bar> * 10))"
  define s where "s = (if v < 0 then ''-'' else '''') @ str_nat (n div 10)"
  have 1: "degree_label v = s @ ''.'' @ [digit (n mod 10), CHR 0xC2, CHR 0xB0]"
    unfolding degree_label_def degree_sign_def format_1f_unfold n_def s_def
    by (simp only: append_assoc append_Cons append_Nil)
  have 2: "digit (n mod 10) \<in> set ''0123456789''" by (rule digit_mem) simp
  have 3: "s \<noteq> []" unfolding s_def using str_nat_nonempty[of "n div 10"] by blast
  have "set s \<subseteq> insert CHR ''-'' (set (str_nat (n div 10)))"
    unfolding s_def by (cases "v < 0") (simp_all only: if_True if_False set_append set_simps, blast+)
  moreover have "insert CHR ''-'' (set ''0123456789'') = set ''-0123456789''"
    by (simp only: set_simps)
  ultimately have 4: "set s \<subseteq> set ''-0123456789''"
    using str_nat_digits[of "n div 10"] by blast
  show ?thesis using 1 2 3 4 by blast
qed

lemma latlon_ticks_fields:
  assumes "ax_xlim ax = (x0, x1)" and "ax_ylim ax = (y0, y1)"
    and "transform B (x0, y0) = (lon_min, lat_min)"
    and "transform B (x1, y1) = (lon_max, lat_max)"
  shows "latlon_ticks B ax
     = ax\<lparr>ax_xticks := linspace (fl B) x0 x1 6, ax_yticks := linspace (fl B) y0 y1 6,
           ax_xticklabels := map degree_label (linspace (fl B) lon_min lon_max 6),
           ax_yticklabels := map degree_label (linspace (fl B) lat_min lat_max 6)\<rparr>"
  using assms by (simp add: latlon_ticks_def Let_def)

lemma latlon_ticks_labels_shape:
  assumes "l \<in> set (ax_xticklabels (latlon_ticks B ax) @ ax_yticklabels (latlon_ticks B ax))"
  shows "\<exists>s d. l = s @ ''.'' @ [d, CHR 0xC2, CHR 0xB0]
           \<and> d \<in> set ''0123456789'' \<and> s \<noteq> [] \<and> set s \<subseteq> set ''-0123456789''"
proof -
  obtain x0 x1 y0 y1 where l: "ax_xlim ax = (x0, x1)" "ax_ylim ax = (y0, y1)"
    by (cases "ax_xlim ax"; cases "ax_ylim ax") auto
  obtain a b c d where t: "transform B (x0, y0) = (a, b)" "transform B (x1, y1) = (c, d)"
    by (cases "transform B (x0, y0)"; cases "transform B (x1, y1)") auto
  from assms obtain v where "l = degree_label v"
    unfolding latlon_ticks_fields[OF l t] by auto
  then show ?thesis using degree_label_shape[of v] by simp
qed

lemma latlon_ticks_corners_only:
  assumes "ax_xlim ax = (x0, x1)" and "ax_ylim ax = (y0, y1)"
    and "transform B' (x0, y0) = transform B (x0, y0)"
    and "transform B' (x1, y1) = transform B (x1, y1)"
    and "fl B' = fl B"
  shows "latlon_ticks B' ax = latlon_ticks B ax"
  using assms by (simp add: latlon_ticks_def Let_def)

lemma plot_route_ticked:
  assumes "plot_route B df fig ax = Inr (fig', ax')"
  shows "\<exists>ax0. ax' = latlon_ticks B ax0"
  using assms
  by (auto simp: plot_route_def Let_def split: prod.splits sum.splits option.splits if_splits)

lemma plot_trajectory_ticked:
  assumes "plot_trajectory B df fig ax = Inr (fig', ax')"
  shows "\<exists>ax0. ax' = latlon_ticks B ax0"
  using assms
  by (auto simp: plot_trajectory_def Let_def split: prod.splits sum.splits option.splits if_splits)

lemma plot_airspace_ticked:
  assumes "plot_airspace B df s fig ax = Inr (fig', ax')"
  shows "\<exists>ax0. ax' = latlon_ticks B ax0"
  using assms
  by (auto simp: plot_airspace_def Let_def split: prod.splits if_splits option.splits)

lemma plot_events_ticked:
  assumes "plot_flight_trajectory_events B df fid = Inr (out, Some (fig', ax'))"
  shows "\<exists>ax0. ax' = latlon_ticks B ax0"
  using assms
  by (auto simp: plot_flight_trajectory_events_def Let_def split: prod.splits if_splits)

lemma plot_airspace_too_few:
  assumes "length (selected_rows df_airspace airspace_str) < 3"
  shows "plot_airspace B df_airspace airspace_str fig ax
     = Inl (ValueError (not_enough_points airspace_str
              (length (selected_rows df_airspace airspace_str))))"
  using assms by (simp add: plot_airspace_def selected_rows_def Let_def)

lemma plot_events_no_data:
  assumes "filter (\<lambda>r. flight_id r = fid) df_events = []"
  shows "plot_flight_trajectory_events B df_events fid
     = Inr ([''No data found for flight_id '' @ fid], None)"
  using assms by (simp add: plot_flight_trajectory_events_def Let_def)

lemma sample_airspace:
  "plot_airspace sample_backend
      [\<lparr>Sequence_Number = 1, Latitude = 0, Longitude = 0, Airspace_ID = ''FIR''\<rparr>,
       \<lparr>Sequence_Number = 2, Latitude = 0, Longitude = 1000, Airspace_ID = ''FIR''\<rparr>,
       \<lparr>Sequence_Number = 3, Latitude = 500, Longitude = 1000, Airspace_ID = ''FIR''\<rparr>]
      ''FIR'' None None
     = Inr (Figure 8 8, latlon_ticks sample_backend
         (subplots\<lparr>ax_xlim := (- 200, 1200), ax_ylim := (- 100, 600)\<rparr>))"
  by (simp add: plot_airspace_def sample_backend_def sample_bounds_def subplots_def)

lemma binary64_0: "binary64 0 = 0"
  by (simp add: binary64_def)

lemma binary64_small_int:
  "binary64 3 = 3" "binary64 4 = 4" "binary64 15 = 15" "binary64 60 = 60"
  "binary64 75 = 75" "binary64 300 = 300"
  by (simp_all add: binary64_def binade.simps round_half_even_def Let_def)

lemma sample_set_lim: "set_xlim sample_backend l = l" "set_ylim sample_backend l = l"
  by (simp_all add: sample_backend_def)

lemma lon_step: "lin_step binary64 0 (3 / 4) = 5404319552844595 / 36028797018963968"
  by (simp add: lin_step_def binary64_def binade.simps round_half_even_def Let_def)

lemma lon_samples:
  "lin_sample binary64 0 (3 / 4) 0 = 0"
  "lin_sample binary64 0 (3 / 4) 1 = 5404319552844595 / 36028797018963968"
  "lin_sample binary64 0 (3 / 4) 2 = 5404319552844595 / 18014398509481984"
  "lin_sample binary64 0 (3 / 4) 3 = 2026619832316723 / 4503599627370496"
  "lin_sample binary64 0 (3 / 4) 4 = 5404319552844595 / 9007199254740992"
  by (simp_all add: lin_sample_def lon_step binary64_def binade.simps round_half_even_def Let_def)

lemma lat_step: "lin_step binary64 0 3 = 5404319552844595 / 9007199254740992"
  by (simp add: lin_step_def binary64_def binade.simps round_half_even_def Let_def)

lemma lat_samples:
  "lin_sample binary64 0 3 0 = 0"
  "lin_sample binary64 0 3 1 = 5404319552844595 / 9007199254740992"
  "lin_sample binary64 0 3 2 = 5404319552844595 / 4503599627370496"
  "lin_sample binary64 0 3 3 = 8106479329266892 / 4503599627370496"
  "lin_sample binary64 0 3 4 = 5404319552844595 / 2251799813685248"
  by (simp_all add: lin_sample_def lat_step binary64_def binade.simps round_half_even_def Let_def)

lemma x_step: "lin_step binary64 0 75 = 15"
  by (simp add: lin_step_def binary64_def binade.simps round_half_even_def Let_def)

lemma x_samples:
  "lin_sample binary64 0 75 0 = 0" "lin_sample binary64 0 75 1 = 15"
  "lin_sample binary64 0 75 2 = 30" "lin_sample binary64 0 75 3 = 45"
  "lin_sample binary64 0 75 4 = 60"
  by (simp_all add: lin_sample_def x_step binary64_def binade.simps round_half_even_def Let_def)

lemma y_step: "lin_step binary64 0 300 = 60"
  by (simp add: lin_step_def binary64_def binade.simps round_half_even_def Let_def)

lemma y_samples:
  "lin_sample binary64 0 300 0 = 0" "lin_sample binary64 0 300 1 = 60"
  "lin_sample binary64 0 300 2 = 120" "lin_sample binary64 0 300 3 = 180"
  "lin_sample binary64 0 300 4 = 240"
  by (simp_all add: lin_sample_def y_step binary64_def binade.simps round_half_even_def Let_def)

lemma lon_labels:
  "map degree_label [0, 5404319552844595 / 36028797018963968, 5404319552844595 / 18014398509481984,
      2026619832316723 / 4503599627370496, 5404319552844595 / 9007199254740992, 3 / 4]
   = [''0.0'' @ [CHR 0xC2, CHR 0xB0], ''0.1'' @ [CHR 0xC2, CHR 0xB0],
      ''0.3'' @ [CHR 0xC2, CHR 0xB0], ''0.4'' @ [CHR 0xC2, CHR 0xB0],
      ''0.6'' @ [CHR 0xC2, CHR 0xB0], ''0.8'' @ [CHR 0xC2, CHR 0xB0]]"
  by (simp add: degree_label_def degree_sign_def format_1f_def round_half_even_def Let_def
            str_nat_ge str_nat_lt digit_def)

lemma lat_labels:
  "map degree_label [0, 5404319552844595 / 9007199254740992, 5404319552844595 / 4503599627370496,
      8106479329266892 / 4503599627370496, 5404319552844595 / 2251799813685248, 3]
   = [''0.0'' @ [CHR 0xC2, CHR 0xB0], ''0.6'' @ [CHR 0xC2, CHR 0xB0],
      ''1.2'' @ [CHR 0xC2, CHR 0xB0], ''1.8'' @ [CHR 0xC2, CHR 0xB0],
      ''2.4'' @ [CHR 0xC2, CHR 0xB0], ''3.0'' @ [CHR 0xC2, CHR 0xB0]]"
  by (simp add: degree_label_def degree_sign_def format_1f_def round_half_even_def Let_def
            str_nat_ge str_nat_lt digit_def)

subsection \<open>The merge of a feature box into the running extent\<close>

text \<open>
  Claim C1. Merging a feature box into the extent state: from the empty state the new
  state is the feature box itself; from a state with all four bounds set the new lower
  bounds are the minima and the new upper bounds the maxima of the old bound and the
  feature's. Whenever \<^verbatim>\<open>plot_route\<close> or \<^verbatim>\<open>plot_trajectory\<close> returns, the extent on the
  returned axes is this merge of the feature box into the extent the axes had (the empty
  one on fresh axes).
\<close>

theorem merge_pointwise_min_max:
  "merge_extent (xmin_f, ymin_f, xmax_f, ymax_f) init_extent
     = full_extent xmin_f xmax_f ymin_f ymax_f
   \<and> merge_extent (xmin_f, ymin_f, xmax_f, ymax_f) (full_extent xmin xmax ymin ymax)
     = full_extent (min xmin xmin_f) (max xmax xmax_f) (min ymin ymin_f) (max ymax ymax_f)
   \<and> (ax_extent ax = Some e \<and> plot_route B df (Some fig) (Some ax) = Inr (fig_r, ax_r)
        \<longrightarrow> ax_extent ax_r = Some (merge_extent (feature_bounds B df) e))
   \<and> (ax_extent ax = Some e \<and> plot_trajectory B df (Some fig) (Some ax) = Inr (fig_t, ax_t)
        \<longrightarrow> ax_extent ax_t = Some (merge_extent (feature_bounds B df) e))
   \<and> (plot_route B df None None = Inr (fig_n, ax_n)
        \<longrightarrow> ax_extent ax_n = Some (merge_extent (feature_bounds B df) init_extent))
   \<and> (plot_trajectory B df None None = Inr (fig_m, ax_m)
        \<longrightarrow> ax_extent ax_m = Some (merge_extent (feature_bounds B df) init_extent))"
  using plot_route_extent_on[of ax e B df fig fig_r ax_r]
    plot_trajectory_extent_on[of ax e B df fig fig_t ax_t]
    plot_route_extent_new[of None None B df fig_n ax_n]
    plot_trajectory_extent_new[of None None B df fig_m ax_m]
  by (simp add: merge_extent_init merge_extent_full)

theorem merge_pointwise_min_max_witness:
  "ax_extent sample_axes = Some (full_extent 0 10 0 5)
   \<and> plot_route sample_backend sample_frame (Some (Figure 8 8)) (Some sample_axes)
       = Inr (Figure 8 8, latlon_ticks sample_backend
           (sample_axes\<lparr>ax_extent := Some (full_extent 0 15 (- 2) 5),
               ax_xlim := (- 3, 18), ax_ylim := (- (34 / 10), 64 / 10)\<rparr>))
   \<and> plot_trajectory sample_backend sample_frame (Some (Figure 8 8)) (Some sample_axes)
       = Inr (Figure 8 8, latlon_ticks sample_backend
           (sample_axes\<lparr>ax_extent := Some (full_extent 0 15 (- 2) 5),
               ax_xlim := (- (45 / 10), 195 / 10), ax_ylim := (- (41 / 10), 71 / 10)\<rparr>))
   \<and> plot_route sample_backend sample_frame None None
       = Inr (Figure 8 8, latlon_ticks sample_backend
           (subplots\<lparr>ax_extent := Some (full_extent 5 15 (- 2) 3),
               ax_xlim := (3, 17), ax_ylim := (- 3, 4)\<rparr>))
   \<and> plot_trajectory sample_backend sample_frame None None
       = Inr (Figure 10 10, latlon_ticks sample_backend
           (subplots\<lparr>ax_extent := Some (full_extent 5 15 (- 2) 3),
               ax_xlim := (2, 18), ax_ylim := (- (7 / 2), 9 / 2)\<rparr>))
   \<and> merge_extent (feature_bounds sample_backend sample_frame) (full_extent 0 10 0 5)
       = full_extent 0 15 (- 2) 5
   \<and> merge_extent (feature_bounds sample_backend sample_frame) init_extent
       = full_extent 5 15 (- 2) 3"
proof -
  have e: "ax_extent sample_axes = Some (full_extent 0 10 0 5)"
    by (simp add: sample_axes_def)
  note inst = merge_pointwise_min_max
    [where xmin_f = 5 and ymin_f = "- 2" and xmax_f = 15 and ymax_f = 3
       and xmin = 0 and xmax = 10 and ymin = 0 and ymax = 5
       and ax = sample_axes and e = "full_extent 0 10 0 5" and B = sample_backend
       and df = sample_frame and fig = "Figure 8 8"
       and fig_r = "Figure 8 8"
       and ax_r = "latlon_ticks sample_backend
           (sample_axes\<lparr>ax_extent := Some (full_extent 0 15 (- 2) 5),
               ax_xlim := (- 3, 18), ax_ylim := (- (34 / 10), 64 / 10)\<rparr>)"
       and fig_t = "Figure 8 8"
       and ax_t = "latlon_ticks sample_backend
           (sample_axes\<lparr>ax_extent := Some (full_extent 0 15 (- 2) 5),
               ax_xlim := (- (45 / 10), 195 / 10), ax_ylim := (- (41 / 10), 71 / 10)\<rparr>)"
       and fig_n = "Figure 8 8"
       and ax_n = "latlon_ticks sample_backend
           (subplots\<lparr>ax_extent := Some (full_extent 5 15 (- 2) 3),
               ax_xlim := (3, 17), ax_ylim := (- 3, 4)\<rparr>)"
       and fig_m = "Figure 10 10"
       and ax_m = "latlon_ticks sample_backend
           (subplots\<lparr>ax_extent := Some (full_extent 5 15 (- 2) 3),
               ax_xlim := (2, 18), ax_ylim := (- (7 / 2), 9 / 2)\<rparr>)"]
  have on: "Some (full_extent 0 15 (- 2) 5)
              = Some (merge_extent (feature_bounds sample_backend sample_frame) (full_extent 0 10 0 5))"
    using inst e sample_route_on by (simp add: latlon_ticks_keeps)
  have new: "Some (full_extent 5 15 (- 2) 3)
              = Some (merge_extent (feature_bounds sample_backend sample_frame) init_extent)"
    using inst sample_route_new by (simp add: latlon_ticks_keeps)
  show ?thesis
    using e sample_route_on sample_trajectory_on sample_route_new sample_trajectory_new on new
    by simp
qed

text \<open>
  Claim C2. Boxes merged one after the other into the empty state give the same final
  extent in every order: two sequences with the same boxes (as multisets) end in the same
  state. The boxes need not even be non-degenerate.
\<close>

theorem merge_order_independent:
  "mset bs = mset cs \<Longrightarrow> merge_all bs init_extent = merge_all cs init_extent"
  by (rule merge_all_perm)

theorem merge_order_independent_witness:
  "mset [(0, 0, 10, 5), (5, - 2, 15, 3), (1, 1, 2, 2 :: real)]
     = mset [(1, 1, 2, 2), (5, - 2, 15, 3), (0, 0, 10, 5)]
   \<and> merge_all [(0, 0, 10, 5), (5, - 2, 15, 3), (1, 1, 2, 2)] init_extent
     = merge_all [(1, 1, 2, 2), (5, - 2, 15, 3), (0, 0, 10, 5)] init_extent"
  using merge_order_independent
    [of "[(0, 0, 10, 5), (5, - 2, 15, 3), (1, 1, 2, 2)]"
        "[(1, 1, 2, 2), (5, - 2, 15, 3), (0, 0, 10, 5)]"]
  by simp

text \<open>
  Claim C9. Merging a box that lies within the current extent (all four bounds set)
  leaves the extent unchanged.
\<close>

theorem merge_sub_box_unchanged:
  "xmin \<le> bxmin \<Longrightarrow> bxmax \<le> xmax \<Longrightarrow> ymin \<le> bymin \<Longrightarrow> bymax \<le> ymax \<Longrightarrow>
   merge_extent (bxmin, bymin, bxmax, bymax) (full_extent xmin xmax ymin ymax)
     = full_extent xmin xmax ymin ymax"
  by (simp add: merge_extent_full min_def max_def)

theorem merge_sub_box_unchanged_witness:
  "(0::real) \<le> 2 \<and> (8::real) \<le> 10 \<and> (0::real) \<le> 1 \<and> (4::real) \<le> 5
   \<and> merge_extent (2, 1, 8, 4) (full_extent 0 10 0 5) = full_extent 0 10 0 5"
  using merge_sub_box_unchanged [of 0 2 8 10 0 1 4 5]
  by simp

text \<open>
  Claim C10. A merge into a state with all four bounds set never shrinks it: the new
  lower bounds are at most the old ones, the new upper bounds at least the old ones. So
  \<open>x_min \<le> x_max\<close> and \<open>y_min \<le> y_max\<close> still hold after merging a non-degenerate
  box into a state where they held, and after merging one into the empty state.
\<close>

theorem merge_never_shrinks:
  "\<exists>x0 x1 y0 y1.
     merge_extent b (full_extent xmin xmax ymin ymax) = full_extent x0 x1 y0 y1
     \<and> x0 \<le> xmin \<and> xmax \<le> x1 \<and> y0 \<le> ymin \<and> ymax \<le> y1
     \<and> (xmin \<le> xmax \<and> ymin \<le> ymax \<and> non_degenerate b \<longrightarrow> x0 \<le> x1 \<and> y0 \<le> y1)
     \<and> (non_degenerate b \<longrightarrow>
          (\<exists>u0 u1 v0 v1. merge_extent b init_extent = full_extent u0 u1 v0 v1
             \<and> u0 \<le> u1 \<and> v0 \<le> v1))"
proof -
  obtain b1 b2 b3 b4 where b: "b = (b1, b2, b3, b4)" by (cases b) auto
  have first: "non_degenerate b \<longrightarrow>
          (\<exists>u0 u1 v0 v1. merge_extent b init_extent = full_extent u0 u1 v0 v1
             \<and> u0 \<le> u1 \<and> v0 \<le> v1)"
    unfolding b merge_extent_init by auto
  have "\<exists>x0 x1 y0 y1.
     merge_extent b (full_extent xmin xmax ymin ymax) = full_extent x0 x1 y0 y1
     \<and> x0 \<le> xmin \<and> xmax \<le> x1 \<and> y0 \<le> ymin \<and> ymax \<le> y1
     \<and> (xmin \<le> xmax \<and> ymin \<le> ymax \<and> non_degenerate b \<longrightarrow> x0 \<le> x1 \<and> y0 \<le> y1)"
    unfolding b merge_extent_full
    by (intro exI conjI, rule refl) auto
  then show ?thesis using first by blast
qed

theorem merge_never_shrinks_witness:
  "(0::real) \<le> 10 \<and> (0::real) \<le> 5 \<and> non_degenerate (5, - 2, 15, 3)
   \<and> (\<exists>x0 x1 y0 y1.
        merge_extent (5, - 2, 15, 3) (full_extent 0 10 0 5) = full_extent x0 x1 y0 y1
        \<and> x0 \<le> 0 \<and> 10 \<le> x1 \<and> y0 \<le> 0 \<and> 5 \<le> y1 \<and> x0 \<le> x1 \<and> y0 \<le> y1
        \<and> (\<exists>u0 u1 v0 v1. merge_extent (5, - 2, 15, 3) init_extent = full_extent u0 u1 v0 v1
             \<and> u0 \<le> u1 \<and> v0 \<le> v1))"
  using merge_never_shrinks [of "(5, - 2, 15, 3)" 0 10 0 5]
  by simp

subsection \<open>The padded limits\<close>

text \<open>
  Claim C4 gives the view window of the scenario as \<open>x: [-3, 18]\<close>, \<open>y: [-1.4, 6.4]\<close>.
  The code pads the lower \<open>y\<close> bound \<open>-2\<close> by \<open>0.2 * 7 = 1.4\<close> downwards, to \<open>-3.4\<close>:
  the window of the claim is not the one computed.
\<close>

theorem scenario_view_window_counterexample:
  "padded_limits (2 / 10) (merge_all [(0, 0, 10, 5), (5, - 2, 15, 3)] init_extent)
     \<noteq> Inr ((- 3, 18), (- (14 / 10), 64 / 10))"
  by (simp add: merge_all_def merge_extent_init merge_extent_full padded_limits_full)

text \<open>
  Claim C4, amended. Merging \<open>{x: [0, 10], y: [0, 5]}\<close> and then
  \<open>{x: [5, 15], y: [-2, 3]}\<close> into the empty state gives \<open>{x: [0, 15], y: [-2, 5]}\<close>,
  and the limits padded by \<open>0.2\<close> are \<open>{x: [-3, 18], y: [-3.4, 6.4]}\<close>.
\<close>

theorem scenario_view_window:
  "merge_all [(0, 0, 10, 5), (5, - 2, 15, 3)] init_extent = full_extent 0 15 (- 2) 5
   \<and> padded_limits (2 / 10) (merge_all [(0, 0, 10, 5), (5, - 2, 15, 3)] init_extent)
       = Inr ((- 3, 18), (- (34 / 10), 64 / 10))"
  by (simp add: merge_all_def merge_extent_init merge_extent_full padded_limits_full)

text \<open>
  Claim C5. For a state with all four bounds set and a padding fraction \<open>p\<close>, the limits
  are the extent widened on both sides of each axis by \<open>p\<close> times the length of that
  axis; with \<open>p = 0\<close> they are the extent itself, and an axis of length zero keeps length
  zero. The limits that \<^verbatim>\<open>plot_route\<close> requests are those for \<open>p = 0.2\<close> of the extent
  it leaves on the axes, those of \<^verbatim>\<open>plot_trajectory\<close> are those for \<open>p = 0.3\<close>.
\<close>

theorem view_window_symmetric_padding:
  "padded_limits p (full_extent xmin xmax ymin ymax)
     = Inr ((xmin - p * (xmax - xmin), xmax + p * (xmax - xmin)),
            (ymin - p * (ymax - ymin), ymax + p * (ymax - ymin)))
   \<and> padded_limits 0 (full_extent xmin xmax ymin ymax) = Inr ((xmin, xmax), (ymin, ymax))
   \<and> (xmin = xmax \<longrightarrow>
        (\<exists>yl. padded_limits p (full_extent xmin xmax ymin ymax) = Inr ((xmin, xmin), yl)))
   \<and> (ymin = ymax \<longrightarrow>
        (\<exists>xl. padded_limits p (full_extent xmin xmax ymin ymax) = Inr (xl, (ymin, ymin))))
   \<and> (plot_route B df fig ax = Inr (fig', ax') \<longrightarrow>
        (\<exists>e xl yl. ax_extent ax' = Some e \<and> padded_limits (2 / 10) e = Inr (xl, yl)
           \<and> ax_xlim ax' = set_xlim B xl \<and> ax_ylim ax' = set_ylim B yl))
   \<and> (plot_trajectory B df fig ax = Inr (fig'', ax'') \<longrightarrow>
        (\<exists>e xl yl. ax_extent ax'' = Some e \<and> padded_limits (3 / 10) e = Inr (xl, yl)
           \<and> ax_xlim ax'' = set_xlim B xl \<and> ax_ylim ax'' = set_ylim B yl))"
proof -
  have r: "plot_route B df fig ax = Inr (fig', ax') \<Longrightarrow>
        (\<exists>e xl yl. ax_extent ax' = Some e \<and> padded_limits (2 / 10) e = Inr (xl, yl)
           \<and> ax_xlim ax' = set_xlim B xl \<and> ax_ylim ax' = set_ylim B yl)"
    using plot_route_shape[of B df fig ax fig' ax'] by (auto simp: padded_limits_full)
  have t: "plot_trajectory B df fig ax = Inr (fig'', ax'') \<Longrightarrow>
        (\<exists>e xl yl. ax_extent ax'' = Some e \<and> padded_limits (3 / 10) e = Inr (xl, yl)
           \<and> ax_xlim ax'' = set_xlim B xl \<and> ax_ylim ax'' = set_ylim B yl)"
    using plot_trajectory_shape[of B df fig ax fig'' ax''] by (auto simp: padded_limits_full)
  show ?thesis
    using r t by (simp add: padded_limits_full mult.commute)
qed

theorem view_window_symmetric_padding_witness:
  "plot_route sample_backend sample_frame None None
     = Inr (Figure 8 8, latlon_ticks sample_backend
         (subplots\<lparr>ax_extent := Some (full_extent 5 15 (- 2) 3),
             ax_xlim := (3, 17), ax_ylim := (- 3, 4)\<rparr>))
   \<and> plot_trajectory sample_backend sample_frame None None
     = Inr (Figure 10 10, latlon_ticks sample_backend
         (subplots\<lparr>ax_extent := Some (full_extent 5 15 (- 2) 3),
             ax_xlim := (2, 18), ax_ylim := (- (7 / 2), 9 / 2)\<rparr>))
   \<and> padded_limits (2 / 10) (full_extent 5 15 (- 2) 3) = Inr ((3, 17), (- 3, 4))
   \<and> padded_limits (3 / 10) (full_extent 5 15 (- 2) 3) = Inr ((2, 18), (- (7 / 2), 9 / 2))
   \<and> padded_limits 0 (full_extent 5 15 (- 2) 3) = Inr ((5, 15), (- 2, 3))
   \<and> (\<exists>yl. padded_limits (2 / 10) (full_extent 3 3 4 4) = Inr ((3, 3), yl))
   \<and> (\<exists>xl. padded_limits (2 / 10) (full_extent 3 3 4 4) = Inr (xl, (4, 4)))
   \<and> (\<exists>e xl yl.
         ax_extent (latlon_ticks sample_backend
           (subplots\<lparr>ax_extent := Some (full_extent 5 15 (- 2) 3),
               ax_xlim := (3, 17), ax_ylim := (- 3, 4)\<rparr>)) = Some e
         \<and> padded_limits (2 / 10) e = Inr (xl, yl) \<and> set_xlim sample_backend xl = (3, 17)
         \<and> set_ylim sample_backend yl = (- 3, 4))
   \<and> (\<exists>e xl yl.
         ax_extent (latlon_ticks sample_backend
           (subplots\<lparr>ax_extent := Some (full_extent 5 15 (- 2) 3),
               ax_xlim := (2, 18), ax_ylim := (- (7 / 2), 9 / 2)\<rparr>)) = Some e
         \<and> padded_limits (3 / 10) e = Inr (xl, yl) \<and> set_xlim sample_backend xl = (2, 18)
         \<and> set_ylim sample_backend yl = (- (7 / 2), 9 / 2))"
proof -
  note route = view_window_symmetric_padding
    [where xmin = 5 and xmax = 15 and ymin = "- 2" and ymax = 3 and p = "2 / 10"
       and B = sample_backend and df = sample_frame and fig = None and ax = None
       and fig' = "Figure 8 8"
       and ax' = "latlon_ticks sample_backend
           (subplots\<lparr>ax_extent := Some (full_extent 5 15 (- 2) 3),
               ax_xlim := (3, 17), ax_ylim := (- 3, 4)\<rparr>)"
       and fig'' = "Figure 10 10"
       and ax'' = "latlon_ticks sample_backend
           (subplots\<lparr>ax_extent := Some (full_extent 5 15 (- 2) 3),
               ax_xlim := (2, 18), ax_ylim := (- (7 / 2), 9 / 2)\<rparr>)"]
  note traj = view_window_symmetric_padding
    [where xmin = 5 and xmax = 15 and ymin = "- 2" and ymax = 3 and p = "3 / 10"]
  note point = view_window_symmetric_padding
    [where xmin = 3 and xmax = 3 and ymin = 4 and ymax = 4 and p = "2 / 10"]
  have r: "\<exists>e xl yl.
         ax_extent (latlon_ticks sample_backend
           (subplots\<lparr>ax_extent := Some (full_extent 5 15 (- 2) 3),
               ax_xlim := (3, 17), ax_ylim := (- 3, 4)\<rparr>)) = Some e
         \<and> padded_limits (2 / 10) e = Inr (xl, yl) \<and> set_xlim sample_backend xl = (3, 17)
         \<and> set_ylim sample_backend yl = (- 3, 4)"
    using route sample_route_new by (auto simp add: latlon_ticks_keeps sample_set_lim)
  have t: "\<exists>e xl yl.
         ax_extent (latlon_ticks sample_backend
           (subplots\<lparr>ax_extent := Some (full_extent 5 15 (- 2) 3),
               ax_xlim := (2, 18), ax_ylim := (- (7 / 2), 9 / 2)\<rparr>)) = Some e
         \<and> padded_limits (3 / 10) e = Inr (xl, yl) \<and> set_xlim sample_backend xl = (2, 18)
         \<and> set_ylim sample_backend yl = (- (7 / 2), 9 / 2)"
    using route sample_trajectory_new by (auto simp add: latlon_ticks_keeps sample_set_lim)
  have n2: "padded_limits (2 / 10) (full_extent 5 15 (- 2) 3) = Inr ((3, 17), (- 3, 4))"
    using route by simp
  have n3: "padded_limits (3 / 10) (full_extent 5 15 (- 2) 3) = Inr ((2, 18), (- (7 / 2), 9 / 2))"
    using traj by simp
  have n0: "padded_limits 0 (full_extent 5 15 (- 2) 3) = Inr ((5, 15), (- 2, 3))"
    using route by simp
  have p1: "\<exists>yl. padded_limits (2 / 10) (full_extent 3 3 4 4) = Inr ((3, 3), yl)"
    using point by simp
  have p2: "\<exists>xl. padded_limits (2 / 10) (full_extent 3 3 4 4) = Inr (xl, (4, 4))"
    using point by simp
  show ?thesis
    using sample_route_new sample_trajectory_new n2 n3 n0 p1 p2 r t by blast
qed

subsection \<open>Ticks and tick labels\<close>

text \<open>
  Claim C6. For every pair of limits read back from the axes, equal ones included, the
  tick step sets six tick positions per axis: the lower limit plus \<open>0, 1, 2, 3, 4\<close> steps
  of a fifth of the distance, and the upper limit itself. It sets six labels per axis.
  Only the two corners \<open>(x0, y0)\<close> and \<open>(x1, y1)\<close> are transformed to longitude and
  latitude; the labels are the six samples taken in the same way between the transformed
  ends, each written with one decimal digit and the degree sign (bytes \<open>C2 B0\<close>). In
  exact arithmetic the samples are exactly evenly spaced; in floats each operation is
  rounded. \<^verbatim>\<open>plot_route\<close> and \<^verbatim>\<open>plot_airspace\<close> return axes that went through this
  step.
\<close>

theorem tick_labels_six:
  assumes "ax_xlim ax = (x0, x1)" and "ax_ylim ax = (y0, y1)"
    and "transform B (x0, y0) = (lon_min, lat_min)"
    and "transform B (x1, y1) = (lon_max, lat_max)"
  shows
   "ax_xticks (latlon_ticks B ax)
      = [lin_sample (fl B) x0 x1 0, lin_sample (fl B) x0 x1 1, lin_sample (fl B) x0 x1 2,
         lin_sample (fl B) x0 x1 3, lin_sample (fl B) x0 x1 4, x1]
    \<and> ax_yticks (latlon_ticks B ax)
      = [lin_sample (fl B) y0 y1 0, lin_sample (fl B) y0 y1 1, lin_sample (fl B) y0 y1 2,
         lin_sample (fl B) y0 y1 3, lin_sample (fl B) y0 y1 4, y1]
    \<and> ax_xticklabels (latlon_ticks B ax)
      = map degree_label
          [lin_sample (fl B) lon_min lon_max 0, lin_sample (fl B) lon_min lon_max 1,
           lin_sample (fl B) lon_min lon_max 2, lin_sample (fl B) lon_min lon_max 3,
           lin_sample (fl B) lon_min lon_max 4, lon_max]
    \<and> ax_yticklabels (latlon_ticks B ax)
      = map degree_label
          [lin_sample (fl B) lat_min lat_max 0, lin_sample (fl B) lat_min lat_max 1,
           lin_sample (fl B) lat_min lat_max 2, lin_sample (fl B) lat_min lat_max 3,
           lin_sample (fl B) lat_min lat_max 4, lat_max]
    \<and> length (ax_xticks (latlon_ticks B ax)) = 6
    \<and> length (ax_yticks (latlon_ticks B ax)) = 6
    \<and> length (ax_xticklabels (latlon_ticks B ax)) = 6
    \<and> length (ax_yticklabels (latlon_ticks B ax)) = 6
    \<and> last (ax_xticks (latlon_ticks B ax)) = x1
    \<and> last (ax_yticks (latlon_ticks B ax)) = y1
    \<and> (fl B 0 = 0 \<and> fl B x0 = x0 \<longrightarrow> hd (ax_xticks (latlon_ticks B ax)) = x0)
    \<and> (fl B 0 = 0 \<and> fl B y0 = y0 \<longrightarrow> hd (ax_yticks (latlon_ticks B ax)) = y0)
    \<and> (fl B 0 = 0 \<and> fl B x0 = x0 \<and> x0 = x1
          \<longrightarrow> ax_xticks (latlon_ticks B ax) = replicate 6 x0)
    \<and> (fl B 0 = 0 \<and> fl B y0 = y0 \<and> y0 = y1
          \<longrightarrow> ax_yticks (latlon_ticks B ax) = replicate 6 y0)
    \<and> ((\<forall>v. fl B v = v) \<longrightarrow>
          ax_xticks (latlon_ticks B ax)
            = [x0, x0 + (x1 - x0) / 5, x0 + 2 * (x1 - x0) / 5, x0 + 3 * (x1 - x0) / 5,
               x0 + 4 * (x1 - x0) / 5, x1]
          \<and> ax_yticks (latlon_ticks B ax)
            = [y0, y0 + (y1 - y0) / 5, y0 + 2 * (y1 - y0) / 5, y0 + 3 * (y1 - y0) / 5,
               y0 + 4 * (y1 - y0) / 5, y1]
          \<and> ax_xticklabels (latlon_ticks B ax)
            = map degree_label
                [lon_min, lon_min + (lon_max - lon_min) / 5,
                 lon_min + 2 * (lon_max - lon_min) / 5, lon_min + 3 * (lon_max - lon_min) / 5,
                 lon_min + 4 * (lon_max - lon_min) / 5, lon_max]
          \<and> ax_yticklabels (latlon_ticks B ax)
            = map degree_label
                [lat_min, lat_min + (lat_max - lat_min) / 5,
                 lat_min + 2 * (lat_max - lat_min) / 5, lat_min + 3 * (lat_max - lat_min) / 5,
                 lat_min + 4 * (lat_max - lat_min) / 5, lat_max])
    \<and> (\<forall>l \<in> set (ax_xticklabels (latlon_ticks B ax) @ ax_yticklabels (latlon_ticks B ax)).
          \<exists>s d. l = s @ ''.'' @ [d, CHR 0xC2, CHR 0xB0]
            \<and> d \<in> set ''0123456789'' \<and> s \<noteq> [] \<and> set s \<subseteq> set ''-0123456789'')
    \<and> (transform B' (x0, y0) = transform B (x0, y0)
          \<and> transform B' (x1, y1) = transform B (x1, y1) \<and> fl B' = fl B
        \<longrightarrow> latlon_ticks B' ax = latlon_ticks B ax)
    \<and> (plot_route B df fig ax_in = Inr (fig_r, ax_r) \<longrightarrow> (\<exists>ax0. ax_r = latlon_ticks B ax0))
    \<and> (plot_airspace B df_airspace airspace_str fig ax_in = Inr (fig_a, ax_a)
        \<longrightarrow> (\<exists>ax0. ax_a = latlon_ticks B ax0))"
proof -
  note f = latlon_ticks_fields[OF assms]
  have nums: "ax_xticks (latlon_ticks B ax)
      = [lin_sample (fl B) x0 x1 0, lin_sample (fl B) x0 x1 1, lin_sample (fl B) x0 x1 2,
         lin_sample (fl B) x0 x1 3, lin_sample (fl B) x0 x1 4, x1]"
    "ax_yticks (latlon_ticks B ax)
      = [lin_sample (fl B) y0 y1 0, lin_sample (fl B) y0 y1 1, lin_sample (fl B) y0 y1 2,
         lin_sample (fl B) y0 y1 3, lin_sample (fl B) y0 y1 4, y1]"
    "ax_xticklabels (latlon_ticks B ax)
      = map degree_label
          [lin_sample (fl B) lon_min lon_max 0, lin_sample (fl B) lon_min lon_max 1,
           lin_sample (fl B) lon_min lon_max 2, lin_sample (fl B) lon_min lon_max 3,
           lin_sample (fl B) lon_min lon_max 4, lon_max]"
    "ax_yticklabels (latlon_ticks B ax)
      = map degree_label
          [lin_sample (fl B) lat_min lat_max 0, lin_sample (fl B) lat_min lat_max 1,
           lin_sample (fl B) lat_min lat_max 2, lin_sample (fl B) lat_min lat_max 3,
           lin_sample (fl B) lat_min lat_max 4, lat_max]"
    unfolding f by (simp_all add: linspace_6)
  have lens: "length (ax_xticks (latlon_ticks B ax)) = 6"
    "length (ax_yticks (latlon_ticks B ax)) = 6"
    "length (ax_xticklabels (latlon_ticks B ax)) = 6"
    "length (ax_yticklabels (latlon_ticks B ax)) = 6"
    "last (ax_xticks (latlon_ticks B ax)) = x1"
    "last (ax_yticks (latlon_ticks B ax)) = y1"
    unfolding nums by simp_all
  have first: "fl B 0 = 0 \<and> fl B x0 = x0 \<longrightarrow> hd (ax_xticks (latlon_ticks B ax)) = x0"
    "fl B 0 = 0 \<and> fl B y0 = y0 \<longrightarrow> hd (ax_yticks (latlon_ticks B ax)) = y0"
    unfolding nums by (simp_all add: lin_sample_first)
  have deg: "fl B 0 = 0 \<and> fl B x0 = x0 \<and> x0 = x1
          \<longrightarrow> ax_xticks (latlon_ticks B ax) = replicate 6 x0"
    "fl B 0 = 0 \<and> fl B y0 = y0 \<and> y0 = y1
          \<longrightarrow> ax_yticks (latlon_ticks B ax) = replicate 6 y0"
    unfolding nums by (auto simp add: lin_sample_same numeral_eq_Suc)
  have exact: "(\<forall>v. fl B v = v) \<longrightarrow>
          ax_xticks (latlon_ticks B ax)
            = [x0, x0 + (x1 - x0) / 5, x0 + 2 * (x1 - x0) / 5, x0 + 3 * (x1 - x0) / 5,
               x0 + 4 * (x1 - x0) / 5, x1]
          \<and> ax_yticks (latlon_ticks B ax)
            = [y0, y0 + (y1 - y0) / 5, y0 + 2 * (y1 - y0) / 5, y0 + 3 * (y1 - y0) / 5,
               y0 + 4 * (y1 - y0) / 5, y1]
          \<and> ax_xticklabels (latlon_ticks B ax)
            = map degree_label
                [lon_min, lon_min + (lon_max - lon_min) / 5,
                 lon_min + 2 * (lon_max - lon_min) / 5, lon_min + 3 * (lon_max - lon_min) / 5,
                 lon_min + 4 * (lon_max - lon_min) / 5, lon_max]
          \<and> ax_yticklabels (latlon_ticks B ax)
            = map degree_label
                [lat_min, lat_min + (lat_max - lat_min) / 5,
                 lat_min + 2 * (lat_max - lat_min) / 5, lat_min + 3 * (lat_max - lat_min) / 5,
                 lat_min + 4 * (lat_max - lat_min) / 5, lat_max]"
  proof
    assume id: "\<forall>v. fl B v = v"
    show "ax_xticks (latlon_ticks B ax)
            = [x0, x0 + (x1 - x0) / 5, x0 + 2 * (x1 - x0) / 5, x0 + 3 * (x1 - x0) / 5,
               x0 + 4 * (x1 - x0) / 5, x1]
          \<and> ax_yticks (latlon_ticks B ax)
            = [y0, y0 + (y1 - y0) / 5, y0 + 2 * (y1 - y0) / 5, y0 + 3 * (y1 - y0) / 5,
               y0 + 4 * (y1 - y0) / 5, y1]
          \<and> ax_xticklabels (latlon_ticks B ax)
            = map degree_label
                [lon_min, lon_min + (lon_max - lon_min) / 5,
                 lon_min + 2 * (lon_max - lon_min) / 5, lon_min + 3 * (lon_max - lon_min) / 5,
                 lon_min + 4 * (lon_max - lon_min) / 5, lon_max]
          \<and> ax_yticklabels (latlon_ticks B ax)
            = map degree_label
                [lat_min, lat_min + (lat_max - lat_min) / 5,
                 lat_min + 2 * (lat_max - lat_min) / 5, lat_min + 3 * (lat_max - lat_min) / 5,
                 lat_min + 4 * (lat_max - lat_min) / 5, lat_max]"
      unfolding nums lin_sample_exact[OF id] by simp
  qed
  have shape: "\<forall>l \<in> set (ax_xticklabels (latlon_ticks B ax) @ ax_yticklabels (latlon_ticks B ax)).
          \<exists>s d. l = s @ ''.'' @ [d, CHR 0xC2, CHR 0xB0]
            \<and> d \<in> set ''0123456789'' \<and> s \<noteq> [] \<and> set s \<subseteq> set ''-0123456789''"
    using latlon_ticks_labels_shape by blast
  have corners: "transform B' (x0, y0) = transform B (x0, y0)
          \<and> transform B' (x1, y1) = transform B (x1, y1) \<and> fl B' = fl B
        \<longrightarrow> latlon_ticks B' ax = latlon_ticks B ax"
    using latlon_ticks_corners_only[OF assms(1,2)] by blast
  have route: "plot_route B df fig ax_in = Inr (fig_r, ax_r) \<longrightarrow> (\<exists>ax0. ax_r = latlon_ticks B ax0)"
    using plot_route_ticked by blast
  have airspace: "plot_airspace B df_airspace airspace_str fig ax_in = Inr (fig_a, ax_a)
        \<longrightarrow> (\<exists>ax0. ax_a = latlon_ticks B ax0)"
    using plot_airspace_ticked by blast
  show ?thesis
    using nums lens first deg exact shape corners route airspace by blast
qed

theorem tick_labels_six_witness:
  "ax_xlim (subplots\<lparr>ax_xlim := (0, 75), ax_ylim := (0, 300)\<rparr>) = (0, 75)
   \<and> ax_ylim (subplots\<lparr>ax_xlim := (0, 75), ax_ylim := (0, 300)\<rparr>) = (0, 300)
   \<and> transform sample_backend (0, 0) = (0, 0)
   \<and> transform sample_backend (75, 300) = (3 / 4, 3)
   \<and> fl sample_backend 0 = 0
   \<and> plot_route sample_backend sample_frame None None
       = Inr (Figure 8 8, latlon_ticks sample_backend
           (subplots\<lparr>ax_extent := Some (full_extent 5 15 (- 2) 3),
               ax_xlim := (3, 17), ax_ylim := (- 3, 4)\<rparr>))
   \<and> plot_airspace sample_backend
        [\<lparr>Sequence_Number = 1, Latitude = 0, Longitude = 0, Airspace_ID = ''FIR''\<rparr>,
         \<lparr>Sequence_Number = 2, Latitude = 0, Longitude = 1000, Airspace_ID = ''FIR''\<rparr>,
         \<lparr>Sequence_Number = 3, Latitude = 500, Longitude = 1000, Airspace_ID = ''FIR''\<rparr>]
        ''FIR'' None None
       = Inr (Figure 8 8, latlon_ticks sample_backend
           (subplots\<lparr>ax_xlim := (- 200, 1200), ax_ylim := (- 100, 600)\<rparr>))
   \<and> ax_xticks (latlon_ticks sample_backend (subplots\<lparr>ax_xlim := (0, 75), ax_ylim := (0, 300)\<rparr>))
       = [0, 15, 30, 45, 60, 75]
   \<and> ax_yticks (latlon_ticks sample_backend (subplots\<lparr>ax_xlim := (0, 75), ax_ylim := (0, 300)\<rparr>))
       = [0, 60, 120, 180, 240, 300]
   \<and> ax_xticklabels
        (latlon_ticks sample_backend (subplots\<lparr>ax_xlim := (0, 75), ax_ylim := (0, 300)\<rparr>))
       = [''0.0'' @ [CHR 0xC2, CHR 0xB0], ''0.1'' @ [CHR 0xC2, CHR 0xB0],
          ''0.3'' @ [CHR 0xC2, CHR 0xB0], ''0.4'' @ [CHR 0xC2, CHR 0xB0],
          ''0.6'' @ [CHR 0xC2, CHR 0xB0], ''0.8'' @ [CHR 0xC2, CHR 0xB0]]
   \<and> ax_yticklabels
        (latlon_ticks sample_backend (subplots\<lparr>ax_xlim := (0, 75), ax_ylim := (0, 300)\<rparr>))
       = [''0.0'' @ [CHR 0xC2, CHR 0xB0], ''0.6'' @ [CHR 0xC2, CHR 0xB0],
          ''1.2'' @ [CHR 0xC2, CHR 0xB0], ''1.8'' @ [CHR 0xC2, CHR 0xB0],
          ''2.4'' @ [CHR 0xC2, CHR 0xB0], ''3.0'' @ [CHR 0xC2, CHR 0xB0]]
   \<and> ax_xticks (latlon_ticks sample_backend (subplots\<lparr>ax_xlim := (3, 3), ax_ylim := (4, 4)\<rparr>))
       = [3, 3, 3, 3, 3, 3]
   \<and> ax_yticks (latlon_ticks sample_backend (subplots\<lparr>ax_xlim := (3, 3), ax_ylim := (4, 4)\<rparr>))
       = [4, 4, 4, 4, 4, 4]
   \<and> length (ax_xticklabels
        (latlon_ticks sample_backend (subplots\<lparr>ax_xlim := (3, 3), ax_ylim := (4, 4)\<rparr>))) = 6
   \<and> ax_xticks (latlon_ticks (sample_backend\<lparr>fl := (\<lambda>v. v)\<rparr>)
         (subplots\<lparr>ax_xlim := (- 200, 1200), ax_ylim := (- 100, 600)\<rparr>))
       = [- 200, 80, 360, 640, 920, 1200]
   \<and> ax_xticklabels (latlon_ticks (sample_backend\<lparr>fl := (\<lambda>v. v)\<rparr>)
         (subplots\<lparr>ax_xlim := (- 200, 1200), ax_ylim := (- 100, 600)\<rparr>))
       = [''-2.0'' @ [CHR 0xC2, CHR 0xB0], ''0.8'' @ [CHR 0xC2, CHR 0xB0],
          ''3.6'' @ [CHR 0xC2, CHR 0xB0], ''6.4'' @ [CHR 0xC2, CHR 0xB0],
          ''9.2'' @ [CHR 0xC2, CHR 0xB0], ''12.0'' @ [CHR 0xC2, CHR 0xB0]]
   \<and> latlon_ticks
        (sample_backend\<lparr>transform :=
           (\<lambda>p. if p = (0, 0) then (0, 0) else if p = (75, 300) then (3 / 4, 3) else (1, 1))\<rparr>)
        (subplots\<lparr>ax_xlim := (0, 75), ax_ylim := (0, 300)\<rparr>)
       = latlon_ticks sample_backend (subplots\<lparr>ax_xlim := (0, 75), ax_ylim := (0, 300)\<rparr>)"
proof -
  have h: "ax_xlim (subplots\<lparr>ax_xlim := (0, 75), ax_ylim := (0, 300)\<rparr>) = (0, 75)"
    "ax_ylim (subplots\<lparr>ax_xlim := (0, 75), ax_ylim := (0, 300)\<rparr>) = (0, 300)"
    "transform sample_backend (0, 0) = (0, 0)"
    "transform sample_backend (75, 300) = (3 / 4, 3)"
    by (simp_all add: sample_backend_def)
  have g: "ax_xlim (subplots\<lparr>ax_xlim := (3, 3), ax_ylim := (4, 4)\<rparr>) = (3, 3)"
    "ax_ylim (subplots\<lparr>ax_xlim := (3, 3), ax_ylim := (4, 4)\<rparr>) = (4, 4)"
    "transform sample_backend (3, 4) = (3 / 100, 4 / 100)"
    "transform sample_backend (3, 4) = (3 / 100, 4 / 100)"
    by (simp_all add: sample_backend_def)
  have k: "ax_xlim (subplots\<lparr>ax_xlim := (- 200, 1200), ax_ylim := (- 100, 600)\<rparr>) = (- 200, 1200)"
    "ax_ylim (subplots\<lparr>ax_xlim := (- 200, 1200), ax_ylim := (- 100, 600)\<rparr>) = (- 100, 600)"
    "transform (sample_backend\<lparr>fl := (\<lambda>v. v)\<rparr>) (- 200, - 100) = (- 2, - 1)"
    "transform (sample_backend\<lparr>fl := (\<lambda>v. v)\<rparr>) (1200, 600) = (12, 6)"
    by (simp_all add: sample_backend_def)
  have fl0: "fl sample_backend 0 = 0" "fl sample_backend 3 = 3" "fl sample_backend 4 = 4"
    by (simp_all add: sample_backend_def binary64_0 binary64_small_int)
  have flid: "\<forall>v. fl (sample_backend\<lparr>fl := (\<lambda>v. v)\<rparr>) v = v"
    by simp
  note wide = tick_labels_six [OF h,
      where B' = "sample_backend\<lparr>transform :=
           (\<lambda>p. if p = (0, 0) then (0, 0) else if p = (75, 300) then (3 / 4, 3) else (1, 1))\<rparr>"
        and df = sample_frame and fig = None and ax_in = None and fig_r = "Figure 8 8"
        and ax_r = "latlon_ticks sample_backend
           (subplots\<lparr>ax_extent := Some (full_extent 5 15 (- 2) 3),
               ax_xlim := (3, 17), ax_ylim := (- 3, 4)\<rparr>)"
        and df_airspace =
          "[\<lparr>Sequence_Number = 1, Latitude = 0, Longitude = 0, Airspace_ID = ''FIR''\<rparr>,
            \<lparr>Sequence_Number = 2, Latitude = 0, Longitude = 1000, Airspace_ID = ''FIR''\<rparr>,
            \<lparr>Sequence_Number = 3, Latitude = 500, Longitude = 1000, Airspace_ID = ''FIR''\<rparr>]"
        and airspace_str = "''FIR''" and fig_a = "Figure 8 8"
        and ax_a = "latlon_ticks sample_backend
             (subplots\<lparr>ax_xlim := (- 200, 1200), ax_ylim := (- 100, 600)\<rparr>)"]
  note point = tick_labels_six [OF g]
  note exact = tick_labels_six [OF k]
  have fl_sample: "fl sample_backend = binary64"
    by (simp add: sample_backend_def)
  have w1: "ax_xticks (latlon_ticks sample_backend (subplots\<lparr>ax_xlim := (0, 75), ax_ylim := (0, 300)\<rparr>))
       = [0, 15, 30, 45, 60, 75]"
    using wide[THEN conjunct1] by (simp only: fl_sample x_samples)
  have w2: "ax_yticks (latlon_ticks sample_backend (subplots\<lparr>ax_xlim := (0, 75), ax_ylim := (0, 300)\<rparr>))
       = [0, 60, 120, 180, 240, 300]"
    using wide[THEN conjunct2, THEN conjunct1] by (simp only: fl_sample y_samples)
  have w3: "ax_xticklabels
        (latlon_ticks sample_backend (subplots\<lparr>ax_xlim := (0, 75), ax_ylim := (0, 300)\<rparr>))
       = [''0.0'' @ [CHR 0xC2, CHR 0xB0], ''0.1'' @ [CHR 0xC2, CHR 0xB0],
          ''0.3'' @ [CHR 0xC2, CHR 0xB0], ''0.4'' @ [CHR 0xC2, CHR 0xB0],
          ''0.6'' @ [CHR 0xC2, CHR 0xB0], ''0.8'' @ [CHR 0xC2, CHR 0xB0]]"
    using wide[THEN conjunct2, THEN conjunct2, THEN conjunct1]
    by (simp only: fl_sample lon_samples lon_labels)
  have w4: "ax_yticklabels
        (latlon_ticks sample_backend (subplots\<lparr>ax_xlim := (0, 75), ax_ylim := (0, 300)\<rparr>))
       = [''0.0'' @ [CHR 0xC2, CHR 0xB0], ''0.6'' @ [CHR 0xC2, CHR 0xB0],
          ''1.2'' @ [CHR 0xC2, CHR 0xB0], ''1.8'' @ [CHR 0xC2, CHR 0xB0],
          ''2.4'' @ [CHR 0xC2, CHR 0xB0], ''3.0'' @ [CHR 0xC2, CHR 0xB0]]"
    using wide[THEN conjunct2, THEN conjunct2, THEN conjunct2, THEN conjunct1]
    by (simp only: fl_sample lat_samples lat_labels)
  have p1: "ax_xticks (latlon_ticks sample_backend (subplots\<lparr>ax_xlim := (3, 3), ax_ylim := (4, 4)\<rparr>))
       = [3, 3, 3, 3, 3, 3]"
  proof -
    from point have "fl sample_backend 0 = 0 \<and> fl sample_backend 3 = 3 \<and> (3::real) = 3
          \<longrightarrow> ax_xticks (latlon_ticks sample_backend
                (subplots\<lparr>ax_xlim := (3, 3), ax_ylim := (4, 4)\<rparr>)) = replicate 6 3"
      by blast
    with fl0 show ?thesis by (simp add: numeral_eq_Suc)
  qed
  have p2: "ax_yticks (latlon_ticks sample_backend (subplots\<lparr>ax_xlim := (3, 3), ax_ylim := (4, 4)\<rparr>))
       = [4, 4, 4, 4, 4, 4]"
  proof -
    from point have "fl sample_backend 0 = 0 \<and> fl sample_backend 4 = 4 \<and> (4::real) = 4
          \<longrightarrow> ax_yticks (latlon_ticks sample_backend
                (subplots\<lparr>ax_xlim := (3, 3), ax_ylim := (4, 4)\<rparr>)) = replicate 6 4"
      by blast
    with fl0 show ?thesis by (simp add: numeral_eq_Suc)
  qed
  have p3: "length (ax_xticklabels
        (latlon_ticks sample_backend (subplots\<lparr>ax_xlim := (3, 3), ax_ylim := (4, 4)\<rparr>))) = 6"
    using point by blast
  have e1: "ax_xticks (latlon_ticks (sample_backend\<lparr>fl := (\<lambda>v. v)\<rparr>)
         (subplots\<lparr>ax_xlim := (- 200, 1200), ax_ylim := (- 100, 600)\<rparr>))
       = [- 200, 80, 360, 640, 920, 1200]"
  proof -
    from exact flid have "ax_xticks (latlon_ticks (sample_backend\<lparr>fl := (\<lambda>v. v)\<rparr>)
         (subplots\<lparr>ax_xlim := (- 200, 1200), ax_ylim := (- 100, 600)\<rparr>))
       = [- 200, - 200 + (1200 - - 200) / 5, - 200 + 2 * (1200 - - 200) / 5,
          - 200 + 3 * (1200 - - 200) / 5, - 200 + 4 * (1200 - - 200) / 5, 1200]"
      by blast
    then show ?thesis by simp
  qed
  have e2: "ax_xticklabels (latlon_ticks (sample_backend\<lparr>fl := (\<lambda>v. v)\<rparr>)
         (subplots\<lparr>ax_xlim := (- 200, 1200), ax_ylim := (- 100, 600)\<rparr>))
       = [''-2.0'' @ [CHR 0xC2, CHR 0xB0], ''0.8'' @ [CHR 0xC2, CHR 0xB0],
          ''3.6'' @ [CHR 0xC2, CHR 0xB0], ''6.4'' @ [CHR 0xC2, CHR 0xB0],
          ''9.2'' @ [CHR 0xC2, CHR 0xB0], ''12.0'' @ [CHR 0xC2, CHR 0xB0]]"
  proof -
    from exact flid have "ax_xticklabels (latlon_ticks (sample_backend\<lparr>fl := (\<lambda>v. v)\<rparr>)
         (subplots\<lparr>ax_xlim := (- 200, 1200), ax_ylim := (- 100, 600)\<rparr>))
       = map degree_label [- 2, - 2 + (12 - - 2) / 5, - 2 + 2 * (12 - - 2) / 5,
            - 2 + 3 * (12 - - 2) / 5, - 2 + 4 * (12 - - 2) / 5, 12]"
      by blast
    then show ?thesis
      by (simp add: degree_label_def degree_sign_def format_1f_def round_half_even_def Let_def
            str_nat_ge str_nat_lt digit_def)
  qed
  have c: "latlon_ticks
        (sample_backend\<lparr>transform :=
           (\<lambda>p. if p = (0, 0) then (0, 0) else if p = (75, 300) then (3 / 4, 3) else (1, 1))\<rparr>)
        (subplots\<lparr>ax_xlim := (0, 75), ax_ylim := (0, 300)\<rparr>)
       = latlon_ticks sample_backend (subplots\<lparr>ax_xlim := (0, 75), ax_ylim := (0, 300)\<rparr>)"
  proof -
    have "transform (sample_backend\<lparr>transform :=
           (\<lambda>p. if p = (0, 0) then (0, 0) else if p = (75, 300) then (3 / 4, 3) else (1, 1))\<rparr>)
             (0, 0) = transform sample_backend (0, 0)
      \<and> transform (sample_backend\<lparr>transform :=
           (\<lambda>p. if p = (0, 0) then (0, 0) else if p = (75, 300) then (3 / 4, 3) else (1, 1))\<rparr>)
             (75, 300) = transform sample_backend (75, 300)
      \<and> fl (sample_backend\<lparr>transform :=
           (\<lambda>p. if p = (0, 0) then (0, 0) else if p = (75, 300) then (3 / 4, 3) else (1, 1))\<rparr>)
          = fl sample_backend"
      by (simp add: sample_backend_def)
    then show ?thesis using wide by blast
  qed
  show ?thesis
    using h fl0(1) sample_route_new sample_airspace w1 w2 w3 w4 p1 p2 p3 e1 e2 c by blast
qed

subsection \<open>Frames with too few points\<close>

text \<open>
  Claim C7 says that a geometry with too few points (fewer than one for a line) raises
  an invalid-input error. \<^verbatim>\<open>plot_flight_trajectory_events\<close> does not raise when no
  event of the flight is found: it prints a message and returns \<^verbatim>\<open>None\<close>.
\<close>

theorem no_events_counterexample:
  "plot_flight_trajectory_events sample_backend [] ''AB123''
     = Inr ([''No data found for flight_id AB123''], None)"
  by (simp add: plot_flight_trajectory_events_def)

text \<open>
  Claim C7, amended. \<^verbatim>\<open>plot_airspace\<close> raises \<^verbatim>\<open>ValueError\<close> at once, drawing
  nothing, when fewer than three rows are kept for the polygon. When no row of the
  frame belongs to the flight, \<^verbatim>\<open>plot_flight_trajectory_events\<close> raises nothing: it
  prints \<^verbatim>\<open>No data found for flight_id ...\<close> and returns \<^verbatim>\<open>None\<close>.
\<close>

theorem too_few_points_handling:
  "(length (selected_rows df_airspace airspace_str) < 3 \<longrightarrow>
      plot_airspace B df_airspace airspace_str fig ax
        = Inl (ValueError (not_enough_points airspace_str
                 (length (selected_rows df_airspace airspace_str)))))
   \<and> (filter (\<lambda>r. flight_id r = fid) df_events = [] \<longrightarrow>
      plot_flight_trajectory_events B df_events fid
        = Inr ([''No data found for flight_id '' @ fid], None))"
  using plot_airspace_too_few plot_events_no_data by blast

theorem too_few_points_handling_witness:
  "length (selected_rows
      [\<lparr>Sequence_Number = 1, Latitude = 0, Longitude = 0, Airspace_ID = ''FIR''\<rparr>,
       \<lparr>Sequence_Number = 2, Latitude = 1, Longitude = 0, Airspace_ID = ''FIR''\<rparr>,
       \<lparr>Sequence_Number = 1, Latitude = 5, Longitude = 5, Airspace_ID = ''TMA''\<rparr>] ''FIR'') < 3
   \<and> plot_airspace sample_backend
      [\<lparr>Sequence_Number = 1, Latitude = 0, Longitude = 0, Airspace_ID = ''FIR''\<rparr>,
       \<lparr>Sequence_Number = 2, Latitude = 1, Longitude = 0, Airspace_ID = ''FIR''\<rparr>,
       \<lparr>Sequence_Number = 1, Latitude = 5, Longitude = 5, Airspace_ID = ''TMA''\<rparr>] ''FIR'' None None
     = Inl (ValueError (''Not enough points to build a polygon for '' @ [CHR 0x27] @ ''FIR''
              @ [CHR 0x27] @ '' (need >=3, got 2)''))
   \<and> filter (\<lambda>r. flight_id r = ''AB123'')
        [\<lparr>flight_id = ''XY9'', event_time = 0, latitude = 1, longitude = 2, altitude = 30000\<rparr>] = []
   \<and> plot_flight_trajectory_events sample_backend
        [\<lparr>flight_id = ''XY9'', event_time = 0, latitude = 1, longitude = 2, altitude = 30000\<rparr>]
        ''AB123''
     = Inr ([''No data found for flight_id AB123''], None)"
  using too_few_points_handling
    [where df_airspace =
       "[\<lparr>Sequence_Number = 1, Latitude = 0, Longitude = 0, Airspace_ID = ''FIR''\<rparr>,
         \<lparr>Sequence_Number = 2, Latitude = 1, Longitude = 0, Airspace_ID = ''FIR''\<rparr>,
         \<lparr>Sequence_Number = 1, Latitude = 5, Longitude = 5, Airspace_ID = ''TMA''\<rparr>]"
       and airspace_str = "''FIR''" and B = sample_backend and fig = None and ax = None
       and fid = "''AB123''"
       and df_events =
         "[\<lparr>flight_id = ''XY9'', event_time = 0, latitude = 1, longitude = 2, altitude = 30000\<rparr>]"]
  by (simp add: selected_rows_def not_enough_points_def str_nat_lt digit_def)

end
